theory Spec2Isabelle
  imports Main "HOL-Library.Multiset" "HOL-Library.AList"
begin

section \<open>JavaScript values carried by the date fields of an opportunity\<close>

text \<open>
  The deadline logic lives twice in the sources: in \<^verbatim>\<open>src/app/studentPages/(tabs)/Home.tsx\<close>
  and, in its most complete form (with \<^verbatim>\<open>parseFlexibleDate\<close> and the category table), in the
  screen appended to \<^verbatim>\<open>src/services/authDebugService.js\<close> (lines 156 onwards). The functions
  \<^verbatim>\<open>filterOpportunities\<close>, \<^verbatim>\<open>sortOpportunities\<close>, \<^verbatim>\<open>getDisplayedOpportunities\<close>,
  \<^verbatim>\<open>isOpportunityBookmarked\<close>, \<^verbatim>\<open>isOpportunityOrganizationVerified\<close>, the batching loop of
  \<^verbatim>\<open>fetchOpportunityDeadlines\<close> and the \<^verbatim>\<open>createdAt\<close> fallback are the same text in both files.
  Where they differ (\<^verbatim>\<open>getEarliestDeadline\<close>, \<^verbatim>\<open>getEarliestDeadlineFromFullData\<close>) the
  embedding follows the second file, which the specification takes as authoritative; the
  \<^verbatim>\<open>getEarliestDeadline\<close> of Home.tsx is embedded beside it, as \<open>getEarliestDeadline_Home\<close>.

  A time value is the number of milliseconds since the epoch; \<open>None\<close> is \<^verbatim>\<open>NaN\<close>, the time
  value of an \<^verbatim>\<open>Invalid Date\<close>.
\<close>

type_synonym timeValue = "int option"

text \<open>
  What calling \<^verbatim>\<open>toDate\<close> on a timestamp-like object does: it returns a valid \<^verbatim>\<open>Date\<close>
  (a Firestore \<^verbatim>\<open>Timestamp\<close> always does) or it raises (a \<^verbatim>\<open>toDate\<close> that throws, or a
  \<^verbatim>\<open>toDate\<close> property that is not callable).
\<close>

datatype toDateResult = Returns int | Throws

text \<open>
  The values a date field is given: an absent field, \<^verbatim>\<open>null\<close>, a string, an integral
  number, \<^verbatim>\<open>NaN\<close>, a \<^verbatim>\<open>Date\<close> object (valid or invalid), an object exposing
  \<^verbatim>\<open>toDate\<close>, or any other plain object. Strings are ASCII.
\<close>

datatype jsval =
    Undefined
  | Null
  | Str string
  | Num int
  | NaN
  | DateObj timeValue
  | Timestamp toDateResult
  | PlainObj

text \<open>What the code can raise: the exception of a failing \<^verbatim>\<open>toDate\<close> call.\<close>

datatype exn = ToDateError

text \<open>JavaScript truthiness, as used by \<^verbatim>\<open>!dateValue\<close> and \<^verbatim>\<open>if (opportunity.deadline)\<close>.\<close>

fun truthy :: "jsval \<Rightarrow> bool" where
  "truthy Undefined = False"
| "truthy Null = False"
| "truthy (Str s) = (s \<noteq> [])"
| "truthy (Num n) = (n \<noteq> 0)"
| "truthy NaN = False"
| "truthy (DateObj d) = True"
| "truthy (Timestamp r) = True"
| "truthy PlainObj = True"

section \<open>The Date built-in\<close>

text \<open>
  The host environment: the offset of local time from UTC in milliseconds (a constant offset,
  so no daylight-saving transition), and what \<^verbatim>\<open>Date.parse\<close> makes of a string outside the
  standard date-only format, which ECMAScript leaves to the engine.
\<close>

record env =
  tzOffset :: int
  engineParse :: "string \<Rightarrow> int option"

definition msPerDay :: int where
  "msPerDay = 86400000"

definition maxTime :: int where
  "maxTime = 8640000000000000"

definition TimeClip :: "int \<Rightarrow> timeValue" where
  "TimeClip t = (if \<bar>t\<bar> \<le> maxTime then Some t else None)"

definition DayFromYear :: "int \<Rightarrow> int" where
  "DayFromYear y =
     365 * (y - 1970) + (y - 1969) div 4 - (y - 1901) div 100 + (y - 1601) div 400"

definition InLeapYear :: "int \<Rightarrow> bool" where
  "InLeapYear y = (y mod 4 = 0 \<and> (y mod 100 \<noteq> 0 \<or> y mod 400 = 0))"

text \<open>Days from 1 January to the first day of month \<open>m\<close> (0 = January).\<close>

definition monthStart :: "bool \<Rightarrow> int \<Rightarrow> int" where
  "monthStart leap m =
     (if m = 0 then 0
      else if m = 1 then 31
      else (if leap then 1 else 0) +
        (if m = 2 then 59 else if m = 3 then 90 else if m = 4 then 120
         else if m = 5 then 151 else if m = 6 then 181 else if m = 7 then 212
         else if m = 8 then 243 else if m = 9 then 273 else if m = 10 then 304
         else 334))"

text \<open>
  ECMAScript's \<^verbatim>\<open>MakeDay(year, month, date)\<close>: the month is reduced modulo 12 into the year,
  and the date may run past the end of the month.
\<close>

definition MakeDay :: "int \<Rightarrow> int \<Rightarrow> int \<Rightarrow> int" where
  "MakeDay year month date =
     (let ym = year + month div 12; mn = month mod 12
      in DayFromYear ym + monthStart (InLeapYear ym) mn + date - 1)"

text \<open>
  \<^verbatim>\<open>new Date(year, month, day)\<close>: the fields are read as local time, and a year from 0 to 99
  means 1900 + year.
\<close>

definition Date_ymd :: "env \<Rightarrow> int \<Rightarrow> int \<Rightarrow> int \<Rightarrow> timeValue" where
  "Date_ymd e year month day =
     (let yr = (if 0 \<le> year \<and> year \<le> 99 then 1900 + year else year)
      in TimeClip (MakeDay yr month day * msPerDay - tzOffset e))"

section \<open>Characters and the two patterns\<close>

definition isDigit :: "char \<Rightarrow> bool" where
  "isDigit c = (let n = (of_char c :: nat) in 48 \<le> n \<and> n \<le> 57)"

definition isUpper :: "char \<Rightarrow> bool" where
  "isUpper c = (let n = (of_char c :: nat) in 65 \<le> n \<and> n \<le> 90)"

definition isLower :: "char \<Rightarrow> bool" where
  "isLower c = (let n = (of_char c :: nat) in 97 \<le> n \<and> n \<le> 122)"

text \<open>The class \<^verbatim>\<open>\w\<close>: letters, digits and the underscore.\<close>

definition isWord :: "char \<Rightarrow> bool" where
  "isWord c = (isDigit c \<or> isUpper c \<or> isLower c \<or> c = CHR ''_'')"

text \<open>The class \<^verbatim>\<open>\s\<close> on ASCII: tab, line feed, vertical tab, form feed, carriage return, space.\<close>

definition isSpace :: "char \<Rightarrow> bool" where
  "isSpace c = (let n = (of_char c :: nat) in (9 \<le> n \<and> n \<le> 13) \<or> n = 32)"

definition toLowerChar :: "char \<Rightarrow> char" where
  "toLowerChar c = (if isUpper c then char_of ((of_char c :: nat) + 32) else c)"

definition toLowerCase :: "string \<Rightarrow> string" where
  "toLowerCase s = map toLowerChar s"

definition digitVal :: "char \<Rightarrow> int" where
  "digitVal c = int (of_char c) - 48"

text \<open>\<^verbatim>\<open>parseInt\<close> on a string of decimal digits.\<close>

definition parseInt :: "string \<Rightarrow> int" where
  "parseInt s = foldl (\<lambda>acc c. 10 * acc + digitVal c) 0 s"

text \<open>
  \<^verbatim>\<open>/^(\w+)\s+(\d{1,2}),?\s+(\d{4})$/i\<close>. The classes \<^verbatim>\<open>\w\<close>, \<^verbatim>\<open>\s\<close> and the comma are
  pairwise disjoint and digits are word characters, so the match is the only way to cut the
  string: the longest run of word characters, the longest run of spaces, the longest run of
  digits (one or two of them), an optional comma, the longest run of spaces, and four digits
  up to the end. The result is the three groups.
\<close>

definition matchMonthDayYear :: "string \<Rightarrow> (string \<times> string \<times> string) option" where
  "matchMonthDayYear s =
     (let (monthStr, r1) = (takeWhile isWord s, dropWhile isWord s);
          (sp1, r2) = (takeWhile isSpace r1, dropWhile isSpace r1);
          (day, r3) = (takeWhile isDigit r2, dropWhile isDigit r2);
          r4 = (case r3 of c # cs \<Rightarrow> if c = CHR '','' then cs else r3 | [] \<Rightarrow> r3);
          (sp2, year) = (takeWhile isSpace r4, dropWhile isSpace r4)
      in if monthStr \<noteq> [] \<and> sp1 \<noteq> [] \<and> (length day = 1 \<or> length day = 2) \<and> sp2 \<noteq> []
            \<and> length year = 4 \<and> list_all isDigit year
         then Some (monthStr, day, year) else None)"

text \<open>\<^verbatim>\<open>/^(\d{4})-(\d{2})-(\d{2})/\<close>: a prefix match; what follows the day is not looked at.\<close>

definition matchIsoPrefix :: "string \<Rightarrow> (string \<times> string \<times> string) option" where
  "matchIsoPrefix s =
     (let year = take 4 s; month = take 2 (drop 5 s); day = take 2 (drop 8 s)
      in if length s \<ge> 10 \<and> list_all isDigit year \<and> s ! 4 = CHR ''-''
            \<and> list_all isDigit month \<and> s ! 7 = CHR ''-'' \<and> list_all isDigit day
         then Some (year, month, day) else None)"

text \<open>
  The table \<^verbatim>\<open>monthNames\<close>. A key of \<^verbatim>\<open>Object.prototype\<close> (\<^verbatim>\<open>constructor\<close>) would be
  found by the source's lookup, but its value is not a number, the date built from it is
  invalid, and control goes where it goes for a key that is not found.
\<close>

definition monthNames :: "string \<Rightarrow> int option" where
  "monthNames k =
     (if k = ''jan'' \<or> k = ''january'' then Some 0
      else if k = ''feb'' \<or> k = ''february'' then Some 1
      else if k = ''mar'' \<or> k = ''march'' then Some 2
      else if k = ''apr'' \<or> k = ''april'' then Some 3
      else if k = ''may'' then Some 4
      else if k = ''jun'' \<or> k = ''june'' then Some 5
      else if k = ''jul'' \<or> k = ''july'' then Some 6
      else if k = ''aug'' \<or> k = ''august'' then Some 7
      else if k = ''sep'' \<or> k = ''september'' then Some 8
      else if k = ''oct'' \<or> k = ''october'' then Some 9
      else if k = ''nov'' \<or> k = ''november'' then Some 10
      else if k = ''dec'' \<or> k = ''december'' then Some 11
      else None)"

text \<open>Days in month \<open>m\<close> (1 = January) of year \<open>y\<close>.\<close>

definition daysInMonth :: "int \<Rightarrow> int \<Rightarrow> int" where
  "daysInMonth y m =
     (if m = 2 then (if InLeapYear y then 29 else 28)
      else if m = 4 \<or> m = 6 \<or> m = 9 \<or> m = 11 then 30 else 31)"

text \<open>
  \<^verbatim>\<open>new Date(string)\<close>, that is \<^verbatim>\<open>Date.parse\<close>. A string that is exactly a date of the
  standard format, \<^verbatim>\<open>YYYY-MM-DD\<close> with a month and a day that exist, is midnight UTC of that
  day (ECMAScript: a date-only form is UTC). Every other string is left to the engine.
\<close>

definition Date_parse :: "env \<Rightarrow> string \<Rightarrow> timeValue" where
  "Date_parse e s =
     (case (if length s = 10 then matchIsoPrefix s else None) of
        Some (ys, ms, ds) \<Rightarrow>
          (let y = parseInt ys; m = parseInt ms; d = parseInt ds
           in if 1 \<le> m \<and> m \<le> 12 \<and> 1 \<le> d \<and> d \<le> daysInMonth y m
              then TimeClip (MakeDay y (m - 1) d * msPerDay)
              else engineParse e s)
      | None \<Rightarrow> engineParse e s)"

text \<open>
  \<^verbatim>\<open>new Date(value)\<close> for one argument: a \<^verbatim>\<open>Date\<close> is copied, a string is parsed, anything
  else is converted to a number (\<^verbatim>\<open>null\<close> to 0, \<^verbatim>\<open>undefined\<close> to \<^verbatim>\<open>NaN\<close>); an object is
  first converted to a string: a plain object to \<^verbatim>\<open>[object Object]\<close>, and so is an object that
  only adds \<^verbatim>\<open>toDate\<close>.
\<close>

fun newDate :: "env \<Rightarrow> jsval \<Rightarrow> timeValue" where
  "newDate e Undefined = None"
| "newDate e Null = Some 0"
| "newDate e (Str s) = Date_parse e s"
| "newDate e (Num n) = TimeClip n"
| "newDate e NaN = None"
| "newDate e (DateObj d) = d"
| "newDate e (Timestamp r) = Date_parse e ''[object Object]''"
| "newDate e PlainObj = Date_parse e ''[object Object]''"

section \<open>parseFlexibleDate\<close>

text \<open>
  \<^verbatim>\<open>parseFlexibleDate(dateValue): Date | null\<close>. Every \<^verbatim>\<open>Date\<close> it returns is valid (each
  branch checks \<^verbatim>\<open>isNaN\<close>, and \<^verbatim>\<open>toDate\<close> returns valid dates), so the result is the time
  value, and \<open>None\<close> is \<^verbatim>\<open>null\<close>.
\<close>

definition parseDateString :: "env \<Rightarrow> string \<Rightarrow> int option" where
  "parseDateString e s =
     (case Date_parse e s of
        Some t \<Rightarrow> Some t
      | None \<Rightarrow>
          (let viaMonth =
                 (case matchMonthDayYear s of
                    Some (monthStr, day, year) \<Rightarrow>
                      (case monthNames (toLowerCase monthStr) of
                         Some month \<Rightarrow> Date_ymd e (parseInt year) month (parseInt day)
                       | None \<Rightarrow> None)
                  | None \<Rightarrow> None)
           in case viaMonth of
                Some t \<Rightarrow> Some t
              | None \<Rightarrow>
                  (case matchIsoPrefix s of
                     Some (year, month, day) \<Rightarrow>
                       Date_ymd e (parseInt year) (parseInt month - 1) (parseInt day)
                   | None \<Rightarrow> None)))"

fun parseFlexibleDate :: "env \<Rightarrow> jsval \<Rightarrow> int option" where
  "parseFlexibleDate e Undefined = None"
| "parseFlexibleDate e Null = None"
| "parseFlexibleDate e NaN = None"
| "parseFlexibleDate e (DateObj d) = d"
| "parseFlexibleDate e (Timestamp (Returns t)) = Some t"
| "parseFlexibleDate e (Timestamp Throws) = None"
| "parseFlexibleDate e (Num n) = (if n = 0 then None else TimeClip n)"
| "parseFlexibleDate e (Str s) = (if s = [] then None else parseDateString e s)"
| "parseFlexibleDate e PlainObj = None"



section \<open>Opportunity records\<close>

record milestone =
  description :: string
  date :: jsval

record org =
  verificationStatus :: "string option"

text \<open>
  An opportunity as the screens read it. A string field that may be absent is an option;
  \<open>dateMilestones\<close> is \<open>None\<close> when the field is absent or not an array. A document always
  has an id; the empty id is the falsy one.
\<close>

record opportunity =
  id' :: string
  title :: string
  category :: "string option"
  specificCollection :: "string option"
  type' :: "string option"
  createdAt :: jsval
  deadline :: jsval
  dateMilestones :: "milestone list option"
  organizationProfile :: "org option"
  organizationVerificationStatus :: "string option"
  organization :: "org option"

section \<open>Array.prototype.sort\<close>

text \<open>
  A comparator returns a number or raises; \<^verbatim>\<open>NaN\<close> counts as \<open>+0\<close>. The sort is stable
  (ECMAScript 2019), so for a consistent comparator its result is the one stable ordering,
  which inserting each element before the first element that it does not exceed computes;
  for an inconsistent comparator the order is left to the engine and this is one such order.
  An exception of the comparator ends the sort. A list of fewer than two elements is never
  compared.
\<close>

definition sortOrder :: "int option \<Rightarrow> int" where
  "sortOrder v = (case v of None \<Rightarrow> 0 | Some n \<Rightarrow> n)"

fun js_insert :: "('a \<Rightarrow> 'a \<Rightarrow> exn + int option) \<Rightarrow> 'a \<Rightarrow> 'a list \<Rightarrow> exn + 'a list" where
  "js_insert cmp x [] = Inr [x]"
| "js_insert cmp x (y # ys) =
     (case cmp x y of
        Inl err \<Rightarrow> Inl err
      | Inr v \<Rightarrow>
          if sortOrder v \<le> 0 then Inr (x # y # ys)
          else (case js_insert cmp x ys of Inl err \<Rightarrow> Inl err | Inr zs \<Rightarrow> Inr (y # zs)))"

fun js_sort :: "('a \<Rightarrow> 'a \<Rightarrow> exn + int option) \<Rightarrow> 'a list \<Rightarrow> exn + 'a list" where
  "js_sort cmp [] = Inr []"
| "js_sort cmp (x # xs) =
     (case js_sort cmp xs of Inl err \<Rightarrow> Inl err | Inr ys \<Rightarrow> js_insert cmp x ys)"

text \<open>\<^verbatim>\<open>a.getTime() - b.getTime()\<close>: \<^verbatim>\<open>NaN\<close> as soon as one of the two is.\<close>

definition timeDiff :: "timeValue \<Rightarrow> timeValue \<Rightarrow> int option" where
  "timeDiff x y = (case x of None \<Rightarrow> None | Some a \<Rightarrow> (case y of None \<Rightarrow> None | Some b \<Rightarrow> Some (a - b)))"

section \<open>getEarliestDeadline\<close>

text \<open>
  The expression \<^verbatim>\<open>x?.toDate?.() || new Date(x)\<close> of the fallback and of the comparators. The
  call of \<^verbatim>\<open>toDate\<close> is not guarded: what it raises leaves the expression.
\<close>

fun toDateOrNew :: "env \<Rightarrow> jsval \<Rightarrow> exn + timeValue" where
  "toDateOrNew e (Timestamp (Returns t)) = Inr (Some t)"
| "toDateOrNew e (Timestamp Throws) = Inl ToDateError"
| "toDateOrNew e v = Inr (newDate e v)"

text \<open>\<^verbatim>\<open>new Date(fallback.getTime() + 30 * 24 * 60 * 60 * 1000)\<close>.\<close>

definition addThirtyDays :: "timeValue \<Rightarrow> timeValue" where
  "addThirtyDays d = (case d of None \<Rightarrow> None | Some t \<Rightarrow> TimeClip (t + 30 * 24 * 60 * 60 * 1000))"

text \<open>
  The milestones that parse, each with its parsed time: the \<^verbatim>\<open>map\<close> to
  \<^verbatim>\<open>{ milestone, parsedDate }\<close> followed by the \<^verbatim>\<open>filter\<close> on \<^verbatim>\<open>parsedDate !== null\<close>.
\<close>

definition validMilestones :: "env \<Rightarrow> milestone list \<Rightarrow> (milestone \<times> int) list" where
  "validMilestones e ms =
     List.map_filter (\<lambda>m. map_option (Pair m) (parseFlexibleDate e (date m))) ms"

definition compareParsedDate :: "milestone \<times> int \<Rightarrow> milestone \<times> int \<Rightarrow> exn + int option" where
  "compareParsedDate a b = Inr (Some (snd a - snd b))"

text \<open>
  \<^verbatim>\<open>getEarliestDeadline(opportunity): Date\<close>: the earliest milestone that parses, else the
  \<^verbatim>\<open>deadline\<close> field if it parses, else \<^verbatim>\<open>createdAt\<close> plus thirty days. The result is the
  time value of the returned \<^verbatim>\<open>Date\<close>, or the exception that left the function.
\<close>

definition getEarliestDeadline :: "env \<Rightarrow> opportunity \<Rightarrow> exn + timeValue" where
  "getEarliestDeadline e opp =
     (let fromMilestones =
            (case dateMilestones opp of
               None \<Rightarrow> Inr None
             | Some ms \<Rightarrow>
                 if ms \<noteq> [] then
                   (let valid = validMilestones e ms
                    in if valid \<noteq> [] then
                         (case js_sort compareParsedDate valid of
                            Inl err \<Rightarrow> Inl err
                          | Inr [] \<Rightarrow> Inr None
                          | Inr (earliestMilestone # _) \<Rightarrow> Inr (Some (snd earliestMilestone)))
                       else Inr None)
                 else Inr None)
      in case fromMilestones of
           Inl err \<Rightarrow> Inl err
         | Inr (Some t) \<Rightarrow> Inr (Some t)
         | Inr None \<Rightarrow>
             (case (if truthy (deadline opp) then parseFlexibleDate e (deadline opp) else None) of
                Some t \<Rightarrow> Inr (Some t)
              | None \<Rightarrow>
                  (case toDateOrNew e (createdAt opp) of
                     Inl err \<Rightarrow> Inl err
                   | Inr fallback \<Rightarrow> Inr (addThirtyDays fallback))))"

section \<open>getEarliestDeadlineFromFullData\<close>

text \<open>
  The table of \<^verbatim>\<open>getCollectionNameForCategory\<close>, with \<^verbatim>\<open>opportunities\<close> for every other
  category and for an absent one.
\<close>

definition getCollectionNameForCategory :: "string option \<Rightarrow> string" where
  "getCollectionNameForCategory c =
     (if c = Some ''Scholarship / Grant'' then ''scholarships''
      else if c = Some ''Competition / Event'' then ''competitions''
      else if c = Some ''Workshop / Seminar'' then ''workshops''
      else if c = Some ''Resources'' then ''resources''
      else if c = Some ''Study Spot'' then ''studySpots''
      else ''opportunities'')"

text \<open>
  What \<^verbatim>\<open>await getOpportunityDetails(id, collection)\<close> does: it raises, or gives \<^verbatim>\<open>null\<close>, or
  gives the full record. The service is a parameter of the functions that call it.
\<close>

datatype fetchOutcome = FetchError | NoDocument | Document opportunity

type_synonym fetch = "string \<Rightarrow> string \<Rightarrow> fetchOutcome"

text \<open>\<^verbatim>\<open>a || b\<close> on two optional strings: \<open>a\<close> when it is a non-empty string, else \<open>b\<close>.\<close>

definition orElse :: "string option \<Rightarrow> string option \<Rightarrow> string option" where
  "orElse a b = (case a of Some s \<Rightarrow> if s \<noteq> [] then a else b | None \<Rightarrow> b)"

text \<open>\<^verbatim>\<open>try { body } catch { handler }\<close>, both returning.\<close>

definition tryCatch :: "exn + 'a \<Rightarrow> exn + 'a \<Rightarrow> exn + 'a" where
  "tryCatch body handler = (case body of Inl err \<Rightarrow> handler | Inr v \<Rightarrow> Inr v)"

definition hasMilestones :: "opportunity \<Rightarrow> bool" where
  "hasMilestones opp = (case dateMilestones opp of None \<Rightarrow> False | Some ms \<Rightarrow> ms \<noteq> [])"

text \<open>
  \<^verbatim>\<open>getEarliestDeadlineFromFullData(opportunity): Promise<Date>\<close>. The first component
  lists the calls of \<^verbatim>\<open>getOpportunityDetails\<close> that were made, the second is how the promise
  settles: \<open>Inr\<close> resolved with that date, \<open>Inl\<close> rejected. The whole body stands in one
  \<^verbatim>\<open>try\<close>, whose handler returns \<^verbatim>\<open>getEarliestDeadline(opportunity)\<close>.
\<close>

definition getEarliestDeadlineFromFullData ::
    "env \<Rightarrow> fetch \<Rightarrow> opportunity \<Rightarrow> (string \<times> string) list \<times> (exn + timeValue)" where
  "getEarliestDeadlineFromFullData e getOpportunityDetails opp =
     (let targetCollection =
            getCollectionNameForCategory (orElse (category opp) (specificCollection opp));
          handler = getEarliestDeadline e opp
      in if hasMilestones opp then ([], tryCatch (getEarliestDeadline e opp) handler)
         else if targetCollection \<noteq> [] \<and> id' opp \<noteq> [] \<and> targetCollection \<noteq> ''opportunities'' then
           ([(id' opp, targetCollection)],
            case getOpportunityDetails (id' opp) targetCollection of
              FetchError \<Rightarrow> handler
            | NoDocument \<Rightarrow> tryCatch (getEarliestDeadline e opp) handler
            | Document fullData \<Rightarrow>
                (case dateMilestones fullData of
                   Some ms \<Rightarrow> tryCatch (getEarliestDeadline e fullData) handler
                 | None \<Rightarrow> tryCatch (getEarliestDeadline e opp) handler))
         else ([], tryCatch (getEarliestDeadline e opp) handler))"

section \<open>fetchOpportunityDeadlines\<close>

definition batchSize :: nat where
  "batchSize = 5"

text \<open>\<^verbatim>\<open>xs.slice(i, j)\<close> for \<open>i \<le> j\<close>.\<close>

definition slice :: "'a list \<Rightarrow> nat \<Rightarrow> nat \<Rightarrow> 'a list" where
  "slice xs i j = take (j - i) (drop i xs)"

text \<open>
  One element of \<^verbatim>\<open>deadlinePromises\<close>: the asynchronous resolver, and in its handler the
  synchronous one.
\<close>

definition deadlinePromise :: "env \<Rightarrow> fetch \<Rightarrow> opportunity \<Rightarrow> exn + (string \<times> timeValue)" where
  "deadlinePromise e f opp =
     (case tryCatch (snd (getEarliestDeadlineFromFullData e f opp)) (getEarliestDeadline e opp) of
        Inl err \<Rightarrow> Inl err
      | Inr d \<Rightarrow> Inr (id' opp, d))"

text \<open>\<^verbatim>\<open>Promise.all\<close>: rejected as soon as one promise is, else the list of the results.\<close>

fun Promise_all :: "(exn + 'a) list \<Rightarrow> exn + 'a list" where
  "Promise_all [] = Inr []"
| "Promise_all (Inl err # ps) = Inl err"
| "Promise_all (Inr v # ps) = (case Promise_all ps of Inl err \<Rightarrow> Inl err | Inr vs \<Rightarrow> Inr (v # vs))"

text \<open>
  A \<^verbatim>\<open>Map\<close> keeps its entries in the order in which their keys were first set, one entry
  per key: an association list, on which \<^verbatim>\<open>map.set(k, v)\<close> replaces the entry of \<open>k\<close> where
  it stands or adds one at the end.

  The state of the loop: the \<^verbatim>\<open>deadlineMap\<close> and, for the record, the batches processed so
  far, in order.
\<close>

record enrichment =
  deadlineMap :: "(string \<times> timeValue) list"
  batches :: "opportunity list list"

text \<open>\<^verbatim>\<open>results.forEach(({ id, deadline }) => deadlineMap.set(id, deadline))\<close>.\<close>

definition setAll :: "(string \<times> timeValue) list \<Rightarrow> (string \<times> timeValue) list \<Rightarrow> (string \<times> timeValue) list" where
  "setAll results m = fold (\<lambda>r acc. AList.update (fst r) (snd r) acc) results m"

function fetchLoop :: "env \<Rightarrow> fetch \<Rightarrow> opportunity list \<Rightarrow> nat \<Rightarrow> enrichment \<Rightarrow> exn + enrichment" where
  "fetchLoop e f opps i acc =
     (if i < length opps then
        (case Promise_all (map (deadlinePromise e f) (slice opps i (i + batchSize))) of
           Inl err \<Rightarrow> Inl err
         | Inr results \<Rightarrow>
             fetchLoop e f opps (i + batchSize)
               \<lparr>deadlineMap = setAll results (deadlineMap acc),
                batches = batches acc @ [slice opps i (i + batchSize)]\<rparr>)
      else Inr acc)"
  by pat_completeness auto
termination
  by (relation "measure (\<lambda>(e, f, opps, i, acc). length opps - i)") (auto simp: batchSize_def)

text \<open>
  \<^verbatim>\<open>fetchOpportunityDeadlines(opps)\<close>: \<open>Inr\<close> is the map handed to
  \<^verbatim>\<open>setOpportunityDeadlines\<close>; \<open>Inl\<close> is a rejection, which leaves the state as it was.
\<close>

definition fetchOpportunityDeadlines :: "env \<Rightarrow> fetch \<Rightarrow> opportunity list \<Rightarrow> exn + enrichment" where
  "fetchOpportunityDeadlines e f opps = fetchLoop e f opps 0 \<lparr>deadlineMap = [], batches = []\<rparr>"

section \<open>Filtering, sorting and the displayed list\<close>

text \<open>
  Arrays are objects: a variable holds a reference. The heap maps each reference to the
  array's elements; references from \<open>nextRef\<close> on are not in use yet.
\<close>

type_synonym ref = nat

record heap =
  arrays :: "ref \<Rightarrow> opportunity list"
  nextRef :: ref

definition newArray :: "opportunity list \<Rightarrow> heap \<Rightarrow> ref \<times> heap" where
  "newArray xs h = (nextRef h, h\<lparr>arrays := (arrays h)(nextRef h := xs), nextRef := Suc (nextRef h)\<rparr>)"

text \<open>
  \<^verbatim>\<open>array.sort(cmp)\<close> sorts in place and returns the same reference; when the comparator
  raises, the array is as it was.
\<close>

definition Array_sort ::
    "(opportunity \<Rightarrow> opportunity \<Rightarrow> exn + int option) \<Rightarrow> ref \<Rightarrow> heap \<Rightarrow> (exn + ref) \<times> heap" where
  "Array_sort cmp a h =
     (case js_sort cmp (arrays h a) of
        Inl err \<Rightarrow> (Inl err, h)
      | Inr ys \<Rightarrow> (Inr a, h\<lparr>arrays := (arrays h)(a := ys)\<rparr>))"

text \<open>The state of the screen that the three functions read.\<close>

record home =
  opportunities :: ref
  bookmarkedOpportunities :: ref
  selectedCategory :: string
  sortBy :: string

text \<open>\<^verbatim>\<open>a ?? b ?? c\<close> over the three places of the verification status.\<close>

definition isOpportunityOrganizationVerified :: "opportunity \<Rightarrow> bool" where
  "isOpportunityOrganizationVerified opp =
     ((case (case organizationProfile opp of None \<Rightarrow> None | Some p \<Rightarrow> verificationStatus p) of
         Some s \<Rightarrow> Some s
       | None \<Rightarrow>
           (case organizationVerificationStatus opp of
              Some s \<Rightarrow> Some s
            | None \<Rightarrow> (case organization opp of None \<Rightarrow> None | Some p \<Rightarrow> verificationStatus p)))
      = Some ''verified'')"

text \<open>\<^verbatim>\<open>(op.specificCollection || op.category || "").toLowerCase()\<close>.\<close>

definition lowerCollection :: "opportunity \<Rightarrow> string" where
  "lowerCollection opp =
     toLowerCase (case orElse (specificCollection opp) (category opp) of
                    Some s \<Rightarrow> s | None \<Rightarrow> [])"

definition isNotResource :: "opportunity \<Rightarrow> bool" where
  "isNotResource opp =
     (lowerCollection opp \<noteq> ''resources'' \<and> lowerCollection opp \<noteq> ''resource''
      \<and> type' opp \<noteq> Some ''resources'' \<and> type' opp \<noteq> Some ''resource'')"

definition matchesCategory :: "string \<Rightarrow> opportunity \<Rightarrow> bool" where
  "matchesCategory selected opp =
     (selected = ''all'' \<or> specificCollection opp = Some selected
      \<or> lowerCollection opp = toLowerCase selected)"

text \<open>\<^verbatim>\<open>filterOpportunities(opps)\<close>: \<^verbatim>\<open>opps.filter(...)\<close> builds a new array.\<close>

definition filterOpportunities :: "home \<Rightarrow> ref \<Rightarrow> heap \<Rightarrow> ref \<times> heap" where
  "filterOpportunities st opps h =
     newArray
       (filter (\<lambda>opp. isNotResource opp \<and> matchesCategory (selectedCategory st) opp
                       \<and> isOpportunityOrganizationVerified opp)
          (arrays h opps)) h"

definition compareNewest :: "env \<Rightarrow> opportunity \<Rightarrow> opportunity \<Rightarrow> exn + int option" where
  "compareNewest e a b =
     (case toDateOrNew e (createdAt a) of
        Inl err \<Rightarrow> Inl err
      | Inr dateA \<Rightarrow>
          (case toDateOrNew e (createdAt b) of
             Inl err \<Rightarrow> Inl err
           | Inr dateB \<Rightarrow> Inr (timeDiff dateB dateA)))"

definition compareOldest :: "env \<Rightarrow> opportunity \<Rightarrow> opportunity \<Rightarrow> exn + int option" where
  "compareOldest e a b =
     (case toDateOrNew e (createdAt a) of
        Inl err \<Rightarrow> Inl err
      | Inr dateA \<Rightarrow>
          (case toDateOrNew e (createdAt b) of
             Inl err \<Rightarrow> Inl err
           | Inr dateB \<Rightarrow> Inr (timeDiff dateA dateB)))"

definition compareDeadlineSoon :: "env \<Rightarrow> opportunity \<Rightarrow> opportunity \<Rightarrow> exn + int option" where
  "compareDeadlineSoon e a b =
     (case getEarliestDeadline e a of
        Inl err \<Rightarrow> Inl err
      | Inr deadlineA \<Rightarrow>
          (case getEarliestDeadline e b of
             Inl err \<Rightarrow> Inl err
           | Inr deadlineB \<Rightarrow> Inr (timeDiff deadlineA deadlineB)))"

definition compareDeadlineFar :: "env \<Rightarrow> opportunity \<Rightarrow> opportunity \<Rightarrow> exn + int option" where
  "compareDeadlineFar e a b =
     (case getEarliestDeadline e a of
        Inl err \<Rightarrow> Inl err
      | Inr deadlineA \<Rightarrow>
          (case getEarliestDeadline e b of
             Inl err \<Rightarrow> Inl err
           | Inr deadlineB \<Rightarrow> Inr (timeDiff deadlineB deadlineA)))"

text \<open>
  \<^verbatim>\<open>sortOpportunities(opps)\<close>: \<^verbatim>\<open>[...opps]\<close> is a new array with the same elements, and it
  is that array which is sorted and returned.
\<close>

definition sortOpportunities :: "env \<Rightarrow> home \<Rightarrow> ref \<Rightarrow> heap \<Rightarrow> (exn + ref) \<times> heap" where
  "sortOpportunities e st opps h =
     (let (sorted, h1) = newArray (arrays h opps) h
      in if sortBy st = ''newest'' then Array_sort (compareNewest e) sorted h1
         else if sortBy st = ''oldest'' then Array_sort (compareOldest e) sorted h1
         else if sortBy st = ''deadline-soon'' then Array_sort (compareDeadlineSoon e) sorted h1
         else if sortBy st = ''deadline-far'' then Array_sort (compareDeadlineFar e) sorted h1
         else (Inr sorted, h1))"



section \<open>The older copy of getEarliestDeadline, in Home.tsx\<close>

text \<open>
  \<^verbatim>\<open>dateValue.replace(/,/g, "")\<close>, \<^verbatim>\<open>trim()\<close> and \<^verbatim>\<open>split(" ")\<close>, which cuts at every single
  space and so gives empty parts between two spaces in a row.
\<close>

definition removeCommas :: "string \<Rightarrow> string" where
  "removeCommas s = filter (\<lambda>c. c \<noteq> CHR '','') s"

definition trim :: "string \<Rightarrow> string" where
  "trim s = rev (dropWhile isSpace (rev (dropWhile isSpace s)))"

fun splitOnSpace :: "string \<Rightarrow> string list" where
  "splitOnSpace [] = [[]]"
| "splitOnSpace (c # cs) =
     (if c = CHR '' '' then [] # splitOnSpace cs
      else (case splitOnSpace cs of [] \<Rightarrow> [[c]] | p # ps \<Rightarrow> (c # p) # ps))"

text \<open>
  The string branch of \<^verbatim>\<open>parseMilestoneDate\<close>: the \<^verbatim>\<open>Date\<close> constructor on the string, then
  on the string without commas, then on its three parts with the month cut to three letters.
\<close>

definition parseMilestoneString :: "env \<Rightarrow> string \<Rightarrow> int option" where
  "parseMilestoneString e s =
     (case Date_parse e s of
        Some t \<Rightarrow> Some t
      | None \<Rightarrow>
          (let cleaned = trim (removeCommas s)
           in case Date_parse e cleaned of
                Some t \<Rightarrow> Some t
              | None \<Rightarrow>
                  (let parts = splitOnSpace cleaned
                   in if length parts = 3
                      then Date_parse e (take 3 (parts ! 0) @ '' '' @ parts ! 1 @ '' '' @ parts ! 2)
                      else None)))"

text \<open>
  \<^verbatim>\<open>parseMilestoneDate(dateValue)\<close> of Home.tsx. It returns \<^verbatim>\<open>null\<close> (\<open>Inr None\<close>) or a
  \<^verbatim>\<open>Date\<close>, which is invalid when an invalid \<^verbatim>\<open>Date\<close> object was passed in; the call of
  \<^verbatim>\<open>toDate\<close> is not guarded.
\<close>

fun parseMilestoneDate :: "env \<Rightarrow> jsval \<Rightarrow> exn + timeValue option" where
  "parseMilestoneDate e (Timestamp (Returns t)) = Inr (Some (Some t))"
| "parseMilestoneDate e (Timestamp Throws) = Inl ToDateError"
| "parseMilestoneDate e (Str s) = Inr (map_option Some (parseMilestoneString e s))"
| "parseMilestoneDate e (DateObj d) = Inr (Some d)"
| "parseMilestoneDate e v = Inr None"

text \<open>
  The numbers of the comparator \<^verbatim>\<open>(dateA?.getTime() ?? Infinity) - (dateB?.getTime() ??
  Infinity)\<close>: a time, \<^verbatim>\<open>Infinity\<close> for \<^verbatim>\<open>null\<close>, \<^verbatim>\<open>NaN\<close> for an invalid date.
\<close>

datatype jsnum = Finite int | PlusInfinity | MinusInfinity | NotANumber

fun timeOrInfinity :: "timeValue option \<Rightarrow> jsnum" where
  "timeOrInfinity None = PlusInfinity"
| "timeOrInfinity (Some None) = NotANumber"
| "timeOrInfinity (Some (Some t)) = Finite t"

fun jsMinus :: "jsnum \<Rightarrow> jsnum \<Rightarrow> jsnum" where
  "jsMinus NotANumber y = NotANumber"
| "jsMinus x NotANumber = NotANumber"
| "jsMinus (Finite a) (Finite b) = Finite (a - b)"
| "jsMinus (Finite a) PlusInfinity = MinusInfinity"
| "jsMinus (Finite a) MinusInfinity = PlusInfinity"
| "jsMinus PlusInfinity PlusInfinity = NotANumber"
| "jsMinus PlusInfinity y = PlusInfinity"
| "jsMinus MinusInfinity MinusInfinity = NotANumber"
| "jsMinus MinusInfinity y = MinusInfinity"

text \<open>The sort reads the sign of what the comparator returns.\<close>

fun signOf :: "jsnum \<Rightarrow> int option" where
  "signOf (Finite n) = Some n"
| "signOf PlusInfinity = Some 1"
| "signOf MinusInfinity = Some (- 1)"
| "signOf NotANumber = None"

definition compareMilestones :: "env \<Rightarrow> milestone \<Rightarrow> milestone \<Rightarrow> exn + int option" where
  "compareMilestones e a b =
     (case parseMilestoneDate e (date a) of
        Inl err \<Rightarrow> Inl err
      | Inr dateA \<Rightarrow>
          (case parseMilestoneDate e (date b) of
             Inl err \<Rightarrow> Inl err
           | Inr dateB \<Rightarrow> Inr (signOf (jsMinus (timeOrInfinity dateA) (timeOrInfinity dateB)))))"

text \<open>
  \<^verbatim>\<open>getEarliestDeadline\<close> of Home.tsx: the milestones are sorted by parsed date, unparsed
  last, and the first is parsed again; the \<^verbatim>\<open>deadline\<close> field is converted by its own
  \<^verbatim>\<open>toDate\<close> or by the \<^verbatim>\<open>Date\<close> constructor; the fallback is the one of the other copy.
\<close>

definition getEarliestDeadline_Home :: "env \<Rightarrow> opportunity \<Rightarrow> exn + timeValue" where
  "getEarliestDeadline_Home e opp =
     (let fromMilestones =
            (case dateMilestones opp of
               None \<Rightarrow> Inr None
             | Some ms \<Rightarrow>
                 if ms \<noteq> [] then
                   (case js_sort (compareMilestones e) ms of
                      Inl err \<Rightarrow> Inl err
                    | Inr [] \<Rightarrow> Inr None
                    | Inr (firstMilestone # _) \<Rightarrow>
                        (case parseMilestoneDate e (date firstMilestone) of
                           Inl err \<Rightarrow> Inl err
                         | Inr None \<Rightarrow> Inr None
                         | Inr (Some earliestDate) \<Rightarrow> Inr earliestDate))
                 else Inr None)
      in case fromMilestones of
           Inl err \<Rightarrow> Inl err
         | Inr (Some t) \<Rightarrow> Inr (Some t)
         | Inr None \<Rightarrow>
             (case (if truthy (deadline opp) then toDateOrNew e (deadline opp) else Inr None) of
                Inl err \<Rightarrow> Inl err
              | Inr (Some t) \<Rightarrow> Inr (Some t)
              | Inr None \<Rightarrow>
                  (case toDateOrNew e (createdAt opp) of
                     Inl err \<Rightarrow> Inl err
                   | Inr fallback \<Rightarrow> Inr (addThirtyDays fallback))))"

text \<open>
  For the statements about the copy in Home.tsx: the time a milestone parses to, if it parses
  to a valid date, and the order in which a missing time comes last.
\<close>

definition parsedTime :: "env \<Rightarrow> milestone \<Rightarrow> int option" where
  "parsedTime e m =
     (case parseMilestoneDate e (date m) of Inr (Some (Some t)) \<Rightarrow> Some t | _ \<Rightarrow> None)"

fun missingLast :: "int option \<Rightarrow> int option \<Rightarrow> bool" where
  "missingLast (Some a) (Some b) = (a \<le> b)"
| "missingLast (Some a) None = True"
| "missingLast None (Some b) = False"
| "missingLast None None = True"

section \<open>Concrete environments and records\<close>

definition strictEngine :: "string \<Rightarrow> int option" where
  "strictEngine s = None"

definition newYork :: env where
  "newYork = \<lparr>tzOffset = - 18000000, engineParse = strictEngine\<rparr>"

definition manila :: env where
  "manila = \<lparr>tzOffset = 28800000, engineParse = strictEngine\<rparr>"

definition blank :: opportunity where
  "blank = \<lparr>id' = ''op1'', title = ''Sample'', category = None, specificCollection = None,
             type' = None, createdAt = Undefined, deadline = Undefined, dateMilestones = None,
             organizationProfile = None, organizationVerificationStatus = None,
             organization = None\<rparr>"

definition studySpot :: opportunity where
  "studySpot = blank\<lparr>category := Some ''Study Spot'', createdAt := Timestamp (Returns 1735689600000)\<rparr>"

definition brokenCreatedAt :: opportunity where
  "brokenCreatedAt = blank\<lparr>id' := ''op2'', category := Some ''Workshop / Seminar'',
                            createdAt := Timestamp Throws\<rparr>"

definition fetchFails :: fetch where
  "fetchFails i c = FetchError"

definition fetchNothing :: fetch where
  "fetchNothing i c = NoDocument"

text \<open>
  No milestone of the record parses: the list is absent, empty, or made of dates that
  \<^verbatim>\<open>parseFlexibleDate\<close> turns into \<^verbatim>\<open>null\<close>.
\<close>

definition noMilestoneParses :: "env \<Rightarrow> opportunity \<Rightarrow> bool" where
  "noMilestoneParses e opp =
     (case dateMilestones opp of None \<Rightarrow> True
      | Some ms \<Rightarrow> list_all (\<lambda>m. parseFlexibleDate e (date m) = None) ms)"


definition verifiedOrg :: org where
  "verifiedOrg = \<lparr>verificationStatus = Some ''verified''\<rparr>"

definition workshop :: opportunity where
  "workshop = blank\<lparr>id' := ''w1'', category := Some ''Workshop / Seminar'',
                     specificCollection := Some ''workshops'',
                     createdAt := Timestamp (Returns 1735689600000),
                     organizationProfile := Some verifiedOrg\<rparr>"

text \<open>A resource of an organization that is not verified.\<close>

definition resourceBookmark :: opportunity where
  "resourceBookmark = blank\<lparr>id' := ''r1'', category := Some ''Resources'',
                             specificCollection := Some ''resources'',
                             createdAt := Timestamp (Returns 1738281600000)\<rparr>"

text \<open>A record filed under workshops whose category says \<^verbatim>\<open>Resources\<close>.\<close>

definition mislabelled :: opportunity where
  "mislabelled = blank\<lparr>id' := ''m1'', category := Some ''Resources'',
                        specificCollection := Some ''workshops'',
                        createdAt := Timestamp (Returns 1733011200000),
                        organizationVerificationStatus := Some ''verified''\<rparr>"

text \<open>A resource of a verified organization, filed under \<^verbatim>\<open>Resources\<close>.\<close>

definition libraryGuide :: opportunity where
  "libraryGuide = blank\<lparr>id' := ''g1'', category := Some ''Resources'',
                         specificCollection := Some ''Resources'',
                         createdAt := Timestamp (Returns 1730419200000),
                         organizationProfile := Some verifiedOrg\<rparr>"

text \<open>
  A workshop whose first populated status says \<^verbatim>\<open>pending\<close>, while a later place says
  \<^verbatim>\<open>verified\<close>.
\<close>

definition pendingWorkshop :: opportunity where
  "pendingWorkshop = blank\<lparr>id' := ''w2'', category := Some ''Workshop / Seminar'',
                            specificCollection := Some ''workshops'',
                            createdAt := Timestamp (Returns 1727740800000),
                            organizationProfile := Some \<lparr>verificationStatus = Some ''pending''\<rparr>,
                            organizationVerificationStatus := Some ''verified''\<rparr>"

definition sampleArrays :: "ref \<Rightarrow> opportunity list" where
  "sampleArrays r =
     (if r = 0 then [workshop, mislabelled, libraryGuide, pendingWorkshop]
      else if r = 1 then [resourceBookmark, workshop]
      else [])"

definition sampleHeap :: heap where
  "sampleHeap = \<lparr>arrays = sampleArrays, nextRef = 2\<rparr>"


definition oldestHome :: home where
  "oldestHome = \<lparr>opportunities = 0, bookmarkedOpportunities = 1, selectedCategory = ''all'',
                  sortBy = ''oldest''\<rparr>"

definition allHome :: home where
  "allHome = \<lparr>opportunities = 0, bookmarkedOpportunities = 1, selectedCategory = ''all'',
               sortBy = ''newest''\<rparr>"

text \<open>Twelve study spots, with the ids \<^verbatim>\<open>a\<close> to \<^verbatim>\<open>l\<close>.\<close>

definition twelve :: "opportunity list" where
  "twelve = map (\<lambda>c. studySpot\<lparr>id' := [c]\<rparr>) ''abcdefghijkl''"

text \<open>
  Two records on which the two copies of \<^verbatim>\<open>getEarliestDeadline\<close> differ: one whose first
  milestone is an invalid \<^verbatim>\<open>Date\<close> object, one whose first milestone has a \<^verbatim>\<open>toDate\<close> that
  raises; the second milestone of both is \<^verbatim>\<open>2025-12-01\<close>.
\<close>

definition invalidFirst :: opportunity where
  "invalidFirst = studySpot\<lparr>dateMilestones :=
     Some [\<lparr>description = ''Opens'', date = DateObj None\<rparr>,
           \<lparr>description = ''Submission'', date = Str ''2025-12-01''\<rparr>]\<rparr>"

definition throwingFirst :: opportunity where
  "throwingFirst = studySpot\<lparr>dateMilestones :=
     Some [\<lparr>description = ''Opens'', date = Timestamp Throws\<rparr>,
           \<lparr>description = ''Submission'', date = Str ''2025-12-01''\<rparr>]\<rparr>"

definition sampleMilestones :: "milestone list" where
  "sampleMilestones =
     [\<lparr>description = ''Opens'', date = Str ''bad-date''\<rparr>,
      \<lparr>description = ''Finals'', date = Str ''Jan 5, 2026''\<rparr>,
      \<lparr>description = ''Submission'', date = Str ''2025-12-01''\<rparr>]"

definition fetchFull :: fetch where
  "fetchFull i c = Document (blank\<lparr>id' := i, dateMilestones := Some sampleMilestones\<rparr>)"

definition withMilestones :: opportunity where
  "withMilestones = blank\<lparr>dateMilestones := Some sampleMilestones\<rparr>"

text \<open>
  Three records with the milestones \<^verbatim>\<open>Dec 1, 2025\<close>; \<^verbatim>\<open>2025-11-20\<close>; and \<^verbatim>\<open>bad-date\<close> with
  \<^verbatim>\<open>Jan 5, 2026\<close>, in one array, and a screen sorting by the soonest deadline.
\<close>

definition firstOfDecember :: opportunity where
  "firstOfDecember = blank\<lparr>id' := ''s1'', dateMilestones :=
     Some [\<lparr>description = ''Deadline'', date = Str ''Dec 1, 2025''\<rparr>]\<rparr>"

definition twentiethOfNovember :: opportunity where
  "twentiethOfNovember = blank\<lparr>id' := ''s2'', dateMilestones :=
     Some [\<lparr>description = ''Deadline'', date = Str ''2025-11-20''\<rparr>]\<rparr>"

definition fifthOfJanuary :: opportunity where
  "fifthOfJanuary = blank\<lparr>id' := ''s3'', dateMilestones :=
     Some [\<lparr>description = ''Opens'', date = Str ''bad-date''\<rparr>,
           \<lparr>description = ''Deadline'', date = Str ''Jan 5, 2026''\<rparr>]\<rparr>"

definition scenarioArrays :: "ref \<Rightarrow> opportunity list" where
  "scenarioArrays r = (if r = 0 then [firstOfDecember, twentiethOfNovember, fifthOfJanuary] else [])"

definition scenarioHeap :: heap where
  "scenarioHeap = \<lparr>arrays = scenarioArrays, nextRef = 1\<rparr>"

definition soonestHome :: home where
  "soonestHome = \<lparr>opportunities = 0, bookmarkedOpportunities = 0, selectedCategory = ''all'',
                   sortBy = ''deadline-soon''\<rparr>"

section \<open>Parsing the three spellings of 18 November 2025\<close>





















section \<open>The sort\<close>

lemma js_insert_mset:
  "js_insert cmp x ys = Inr zs \<Longrightarrow> mset zs = add_mset x (mset ys)"
proof (induction ys arbitrary: zs)
  case Nil
  then show ?case by auto
next
  case (Cons y ys)
  then show ?case
    by (auto split: sum.splits if_splits)
qed

lemma js_sort_mset:
  "js_sort cmp xs = Inr ys \<Longrightarrow> mset ys = mset xs"
proof (induction xs arbitrary: ys)
  case Nil
  then show ?case by simp
next
  case (Cons x xs)
  then show ?case
    by (auto split: sum.splits dest: js_insert_mset)
qed

lemma js_insert_returns:
  assumes "\<forall>y\<in>set ys. \<exists>v. cmp x y = Inr v"
  shows "\<exists>zs. js_insert cmp x ys = Inr zs"
  using assms by (induction ys) (auto split: sum.splits)

lemma js_sort_returns:
  assumes "\<forall>x\<in>set xs. \<forall>y\<in>set xs. \<exists>v. cmp x y = Inr v"
  shows "\<exists>ys. js_sort cmp xs = Inr ys"
  using assms
proof (induction xs)
  case Nil
  then show ?case by simp
next
  case (Cons x xs)
  then obtain ys where ys: "js_sort cmp xs = Inr ys" by auto
  then have "set ys = set xs" by (metis js_sort_mset set_mset_mset)
  with Cons.prems have "\<forall>y\<in>set ys. \<exists>v. cmp x y = Inr v" by simp
  then have "\<exists>zs. js_insert cmp x ys = Inr zs" by (rule js_insert_returns)
  with ys show ?case by auto
qed

lemma js_insert_sorted_wrt:
  assumes cmp: "\<forall>y\<in>set ys. \<exists>v. cmp x y = Inr v \<and> (sortOrder v \<le> 0) = le x y"
    and total: "\<forall>a b. le a b \<or> le b a"
    and trans: "\<forall>a b c. le a b \<longrightarrow> le b c \<longrightarrow> le a c"
    and sorted: "sorted_wrt le ys"
  shows "\<exists>zs. js_insert cmp x ys = Inr zs \<and> sorted_wrt le zs"
  using cmp sorted
proof (induction ys)
  case Nil
  then show ?case by simp
next
  case (Cons y ys)
  from Cons.prems(1) obtain v where v: "cmp x y = Inr v" "(sortOrder v \<le> 0) = le x y" by auto
  show ?case
  proof (cases "le x y")
    case True
    with trans Cons.prems(2) have "\<forall>z\<in>set ys. le x z" by auto
    with True v Cons.prems(2) show ?thesis by simp
  next
    case False
    with total have yx: "le y x" by blast
    from Cons.IH Cons.prems obtain zs where zs: "js_insert cmp x ys = Inr zs" "sorted_wrt le zs"
      by auto
    from js_insert_mset [OF zs(1)] have "set zs = insert x (set ys)"
      by (metis set_mset_add_mset_insert set_mset_mset)
    with yx Cons.prems(2) zs(2) have "sorted_wrt le (y # zs)" by auto
    with False v zs(1) show ?thesis by simp
  qed
qed

lemma js_sort_sorted_wrt:
  assumes cmp: "\<forall>x\<in>set xs. \<forall>y\<in>set xs. \<exists>v. cmp x y = Inr v \<and> (sortOrder v \<le> 0) = le x y"
    and total: "\<forall>a b. le a b \<or> le b a"
    and trans: "\<forall>a b c. le a b \<longrightarrow> le b c \<longrightarrow> le a c"
  shows "\<exists>ys. js_sort cmp xs = Inr ys \<and> sorted_wrt le ys \<and> mset ys = mset xs"
  using cmp
proof (induction xs)
  case Nil
  then show ?case by simp
next
  case (Cons x xs)
  then obtain ys where ys: "js_sort cmp xs = Inr ys" "sorted_wrt le ys" "mset ys = mset xs"
    by auto
  then have "set ys = set xs" by (metis set_mset_mset)
  with Cons.prems have "\<forall>y\<in>set ys. \<exists>v. cmp x y = Inr v \<and> (sortOrder v \<le> 0) = le x y"
    by simp
  from js_insert_sorted_wrt [of ys cmp x le, OF this total trans ys(2)]
  obtain zs where zs: "js_insert cmp x ys = Inr zs" "sorted_wrt le zs" by blast
  from js_insert_mset [OF zs(1)] ys(3) have "mset zs = mset (x # xs)" by simp
  with ys(1) zs show ?case by simp
qed

section \<open>The earliest milestone\<close>

lemma compareParsedDate_order:
  "compareParsedDate a b = Inr v \<Longrightarrow> (sortOrder v \<le> 0) = (snd a \<le> snd b)"
  by (auto simp: compareParsedDate_def sortOrder_def)

lemma compareParsedDate_returns: "\<exists>v. compareParsedDate a b = Inr v"
  by (simp add: compareParsedDate_def)

lemma js_insert_parsed_sorted:
  "js_insert compareParsedDate x ys = Inr zs \<Longrightarrow> sorted (map snd ys) \<Longrightarrow> sorted (map snd zs)"
proof (induction ys arbitrary: zs)
  case Nil
  then show ?case by auto
next
  case (Cons y ys)
  obtain v where v: "compareParsedDate x y = Inr v"
    using compareParsedDate_returns by blast
  show ?case
  proof (cases "snd x \<le> snd y")
    case True
    with Cons.prems v compareParsedDate_order [OF v] show ?thesis
      by fastforce
  next
    case False
    with Cons.prems v compareParsedDate_order [OF v]
    obtain zs' where zs': "js_insert compareParsedDate x ys = Inr zs'" "zs = y # zs'"
      by (auto split: sum.splits)
    from Cons.IH [OF zs'(1)] Cons.prems(2) have "sorted (map snd zs')" by simp
    moreover have "set zs' = insert x (set ys)"
      using js_insert_mset [OF zs'(1)] by (metis set_mset_add_mset_insert set_mset_mset)
    ultimately show ?thesis using False Cons.prems(2) zs'(2) by auto
  qed
qed

lemma js_sort_parsed_sorted:
  "js_sort compareParsedDate xs = Inr ys \<Longrightarrow> sorted (map snd ys)"
proof (induction xs arbitrary: ys)
  case Nil
  then show ?case by simp
next
  case (Cons x xs)
  then show ?case
    by (auto split: sum.splits dest: js_insert_parsed_sorted)
qed

lemma set_validMilestones:
  "set (validMilestones e ms) = {(m, t). m \<in> set ms \<and> parseFlexibleDate e (date m) = Some t}"
  by (induction ms) (auto simp: validMilestones_def map_filter_simps split: option.splits)

lemma earliest_parsed_milestone:
  assumes ms: "dateMilestones opp = Some ms"
    and parses: "\<exists>m\<in>set ms. parseFlexibleDate e (date m) \<noteq> None"
  shows "\<exists>t. getEarliestDeadline e opp = Inr (Some t)
           \<and> (\<exists>m\<in>set ms. parseFlexibleDate e (date m) = Some t)
           \<and> (\<forall>m\<in>set ms. \<forall>t'. parseFlexibleDate e (date m) = Some t' \<longrightarrow> t \<le> t')"
proof -
  let ?valid = "validMilestones e ms"
  from parses have ne: "?valid \<noteq> []" "ms \<noteq> []"
    using set_validMilestones [of e ms] by (auto simp: set_empty [symmetric] simp del: set_empty)
  have "\<exists>ys. js_sort compareParsedDate ?valid = Inr ys"
    by (rule js_sort_returns) (simp add: compareParsedDate_returns)
  then obtain ys where ys: "js_sort compareParsedDate ?valid = Inr ys" ..
  from js_sort_mset [OF ys] have same: "set ys = set ?valid"
    by (metis set_mset_mset)
  with ne obtain y ys' where cons: "ys = y # ys'"
    by (cases ys) auto
  from js_sort_parsed_sorted [OF ys] cons have least: "\<forall>z\<in>set ys. snd y \<le> snd z"
    by auto
  have res: "getEarliestDeadline e opp = Inr (Some (snd y))"
    using ms ne ys cons by (simp add: getEarliestDeadline_def)
  have "y \<in> set ?valid" using same cons by auto
  then have mem: "\<exists>m\<in>set ms. parseFlexibleDate e (date m) = Some (snd y)"
    by (auto simp: set_validMilestones)
  have "\<forall>m\<in>set ms. \<forall>t'. parseFlexibleDate e (date m) = Some t' \<longrightarrow> snd y \<le> t'"
  proof (intro ballI allI impI)
    fix m t' assume "m \<in> set ms" "parseFlexibleDate e (date m) = Some t'"
    then have "(m, t') \<in> set ys" using same by (simp add: set_validMilestones)
    with least show "snd y \<le> t'" by fastforce
  qed
  with res mem show ?thesis by blast
qed



section \<open>The earliest milestone in the copy of Home.tsx\<close>

lemma parseMilestoneDate_cases:
  assumes "v \<noteq> Timestamp Throws" and "v \<noteq> DateObj None"
  shows "parseMilestoneDate e v = Inr None \<or> (\<exists>t. parseMilestoneDate e v = Inr (Some (Some t)))"
  using assms by (cases "(e, v)" rule: parseMilestoneDate.cases) auto

lemma missingLast_total: "missingLast a b \<or> missingLast b a"
  by (cases "(a, b)" rule: missingLast.cases) auto

lemma missingLast_trans: "missingLast a b \<Longrightarrow> missingLast b c \<Longrightarrow> missingLast a c"
  by (cases a; cases b; cases c) auto

lemma compareMilestones_order:
  assumes "date a \<noteq> Timestamp Throws" "date a \<noteq> DateObj None"
    and "date b \<noteq> Timestamp Throws" "date b \<noteq> DateObj None"
  shows "\<exists>v. compareMilestones e a b = Inr v
           \<and> (sortOrder v \<le> 0) = missingLast (parsedTime e a) (parsedTime e b)"
  using parseMilestoneDate_cases [OF assms(1,2), of e] parseMilestoneDate_cases [OF assms(3,4), of e]
  by (auto simp: compareMilestones_def parsedTime_def sortOrder_def)

text \<open>
  The copy in Home.tsx on a list of milestones whose dates are strings, timestamps whose
  \<^verbatim>\<open>toDate\<close> returns, valid \<^verbatim>\<open>Date\<close> objects or no dates at all: when at least one of them
  parses under \<^verbatim>\<open>parseMilestoneDate\<close>, the result is the minimum of the dates that parse.
\<close>

theorem Home_earliest_milestone_is_minimum:
  assumes ms: "dateMilestones opp = Some ms"
    and wf: "\<forall>m\<in>set ms. date m \<noteq> Timestamp Throws \<and> date m \<noteq> DateObj None"
    and parses: "\<exists>m\<in>set ms. \<exists>t. parseMilestoneDate e (date m) = Inr (Some (Some t))"
  shows "\<exists>t. getEarliestDeadline_Home e opp = Inr (Some t)
           \<and> (\<exists>m\<in>set ms. parseMilestoneDate e (date m) = Inr (Some (Some t)))
           \<and> (\<forall>m\<in>set ms. \<forall>t'. parseMilestoneDate e (date m) = Inr (Some (Some t')) \<longrightarrow> t \<le> t')"
proof -
  let ?le = "\<lambda>a b. missingLast (parsedTime e a) (parsedTime e b)"
  have cmp: "\<forall>x\<in>set ms. \<forall>y\<in>set ms. \<exists>v. compareMilestones e x y = Inr v
               \<and> (sortOrder v \<le> 0) = ?le x y"
    using wf by (simp add: compareMilestones_order)
  have total: "\<forall>a b. ?le a b \<or> ?le b a" by (simp add: missingLast_total)
  have trans: "\<forall>a b c. ?le a b \<longrightarrow> ?le b c \<longrightarrow> ?le a c" using missingLast_trans by blast
  from js_sort_sorted_wrt [of ms "compareMilestones e" ?le, OF cmp total trans]
  obtain ys where ys: "js_sort (compareMilestones e) ms = Inr ys" "sorted_wrt ?le ys"
    "mset ys = mset ms" by blast
  from ys(3) have same: "set ys = set ms" by (metis set_mset_mset)
  from parses have ne: "ms \<noteq> []" by auto
  with ys(3) obtain y ys' where cons: "ys = y # ys'" by (cases ys) auto
  from ys(2) cons have least: "\<forall>z\<in>set ys. ?le y z"
    using missingLast_total [of "parsedTime e y" "parsedTime e y"] by auto
  from parses obtain m0 t0 where m0: "m0 \<in> set ms" "parseMilestoneDate e (date m0) = Inr (Some (Some t0))"
    by blast
  then have "parsedTime e m0 = Some t0" by (simp add: parsedTime_def)
  with least m0(1) same have "missingLast (parsedTime e y) (Some t0)" by fastforce
  then obtain t where t: "parsedTime e y = Some t" by (cases "parsedTime e y") auto
  then have py: "parseMilestoneDate e (date y) = Inr (Some (Some t))"
    by (auto simp: parsedTime_def split: sum.splits option.splits)
  have res: "getEarliestDeadline_Home e opp = Inr (Some t)"
    using ms ne ys(1) cons py by (simp add: getEarliestDeadline_Home_def)
  have mem: "\<exists>m\<in>set ms. parseMilestoneDate e (date m) = Inr (Some (Some t))"
    using py same cons by auto
  have "\<forall>m\<in>set ms. \<forall>t'. parseMilestoneDate e (date m) = Inr (Some (Some t')) \<longrightarrow> t \<le> t'"
  proof (intro ballI allI impI)
    fix m t' assume m: "m \<in> set ms" "parseMilestoneDate e (date m) = Inr (Some (Some t'))"
    then have "parsedTime e m = Some t'" by (simp add: parsedTime_def)
    moreover from m(1) same least have "?le y m" by blast
    ultimately show "t \<le> t'" using t by simp
  qed
  with res mem show ?thesis by blast
qed

text \<open>
  The theorem on the three sample milestones, with an engine that rejects the textual form:
  only \<^verbatim>\<open>2025-12-01\<close> parses in this copy, and it is the result.
\<close>

theorem Home_earliest_milestone_witness:
  "dateMilestones withMilestones = Some sampleMilestones \<and>
   parseMilestoneDate manila (date (sampleMilestones ! 0)) = Inr None \<and>
   parseMilestoneDate manila (date (sampleMilestones ! 1)) = Inr None \<and>
   parseMilestoneDate manila (date (sampleMilestones ! 2)) = Inr (Some (Some 1764547200000)) \<and>
   getEarliestDeadline_Home manila withMilestones = Inr (Some 1764547200000)"
proof -
  have a: "dateMilestones withMilestones = Some sampleMilestones"
    by (simp add: withMilestones_def)
  have wf: "\<forall>m\<in>set sampleMilestones. date m \<noteq> Timestamp Throws \<and> date m \<noteq> DateObj None"
    by (simp add: sampleMilestones_def)
  have p0: "parseMilestoneDate manila (date (sampleMilestones ! 0)) = Inr None" by code_simp
  have p1: "parseMilestoneDate manila (date (sampleMilestones ! 1)) = Inr None" by code_simp
  have p2: "parseMilestoneDate manila (date (sampleMilestones ! 2)) = Inr (Some (Some 1764547200000))"
    by code_simp
  have in2: "sampleMilestones ! 2 \<in> set sampleMilestones" by (simp add: sampleMilestones_def)
  with p2 have b: "\<exists>m\<in>set sampleMilestones. \<exists>t. parseMilestoneDate manila (date m) = Inr (Some (Some t))"
    by blast
  from Home_earliest_milestone_is_minimum [OF a wf b]
  obtain t where t: "getEarliestDeadline_Home manila withMilestones = Inr (Some t)"
    and mem: "\<exists>m\<in>set sampleMilestones. parseMilestoneDate manila (date m) = Inr (Some (Some t))"
    by blast
  from mem p0 p1 p2 have "t = 1764547200000" by (auto simp: sampleMilestones_def)
  with t a p0 p1 p2 show ?thesis by simp
qed

text \<open>
  Where the two copies part. An invalid \<^verbatim>\<open>Date\<close> object compares as equal to everything and
  stays first, so the copy in Home.tsx falls through to \<^verbatim>\<open>createdAt\<close> plus thirty days; a
  \<^verbatim>\<open>toDate\<close> that raises leaves its comparator. The other copy discards both milestones and
  returns 1 December 2025.
\<close>

theorem copies_differ:
  "getEarliestDeadline_Home newYork invalidFirst = Inr (Some 1738281600000) \<and>
   getEarliestDeadline newYork invalidFirst = Inr (Some 1764547200000) \<and>
   getEarliestDeadline_Home newYork throwingFirst = Inl ToDateError \<and>
   getEarliestDeadline newYork throwingFirst = Inr (Some 1764547200000)"
  by code_simp

section \<open>The fallback to createdAt\<close>

lemma validMilestones_empty:
  "(validMilestones e ms = []) = (\<forall>m\<in>set ms. parseFlexibleDate e (date m) = None)"
proof -
  have "(validMilestones e ms = []) = (set (validMilestones e ms) = {})" by simp
  also have "\<dots> = (\<forall>m\<in>set ms. parseFlexibleDate e (date m) = None)"
    unfolding set_validMilestones by auto
  finally show ?thesis .
qed

lemma parseFlexibleDate_falsy: "\<not> truthy v \<Longrightarrow> parseFlexibleDate e v = None"
  by (cases v) auto

lemma getEarliestDeadline_fallback:
  assumes "noMilestoneParses e opp" and "parseFlexibleDate e (deadline opp) = None"
  shows "getEarliestDeadline e opp =
           (case toDateOrNew e (createdAt opp) of
              Inl err \<Rightarrow> Inl err | Inr fallback \<Rightarrow> Inr (addThirtyDays fallback))"
proof (cases "dateMilestones opp")
  case None
  with assms(2) show ?thesis by (simp add: getEarliestDeadline_def)
next
  case (Some ms)
  with assms(1) have "validMilestones e ms = []"
    by (simp add: validMilestones_empty noMilestoneParses_def list_all_iff)
  with Some assms(2) show ?thesis by (simp add: getEarliestDeadline_def)
qed

lemma getEarliestDeadline_deadline:
  assumes "noMilestoneParses e opp" and "parseFlexibleDate e (deadline opp) = Some t"
  shows "getEarliestDeadline e opp = Inr (Some t)"
proof -
  from assms(2) have tr: "truthy (deadline opp)"
    using parseFlexibleDate_falsy by fastforce
  show ?thesis
  proof (cases "dateMilestones opp")
    case None
    with assms(2) tr show ?thesis by (simp add: getEarliestDeadline_def)
  next
    case (Some ms)
    with assms(1) have "validMilestones e ms = []"
      by (simp add: validMilestones_empty noMilestoneParses_def list_all_iff)
    with Some assms(2) tr show ?thesis by (simp add: getEarliestDeadline_def)
  qed
qed

lemma getEarliestDeadline_milestones:
  assumes "\<not> noMilestoneParses e opp"
  shows "\<exists>t. getEarliestDeadline e opp = Inr (Some t)"
proof -
  from assms obtain ms where ms: "dateMilestones opp = Some ms"
    and "\<exists>m\<in>set ms. parseFlexibleDate e (date m) \<noteq> None"
    by (auto simp: noMilestoneParses_def list_all_iff split: option.splits)
  from earliest_parsed_milestone [OF this] show ?thesis by blast
qed




section \<open>When the synchronous resolver raises\<close>

lemma getEarliestDeadline_raises_iff:
  "(\<exists>err. getEarliestDeadline e opp = Inl err) =
   (noMilestoneParses e opp \<and> parseFlexibleDate e (deadline opp) = None
      \<and> createdAt opp = Timestamp Throws)"
proof (cases "noMilestoneParses e opp")
  case False
  with getEarliestDeadline_milestones [OF False] show ?thesis by auto
next
  case True
  show ?thesis
  proof (cases "parseFlexibleDate e (deadline opp)")
    case (Some t)
    with True getEarliestDeadline_deadline [OF True Some] show ?thesis by simp
  next
    case None
    have "(\<exists>err. toDateOrNew e v = Inl err) = (v = Timestamp Throws)" for v
      by (cases "(e, v)" rule: toDateOrNew.cases) auto
    with True None show ?thesis
      by (auto simp: getEarliestDeadline_fallback split: sum.splits)
  qed
qed

text \<open>
  When \<^verbatim>\<open>getEarliestDeadline\<close> raises: exactly when no milestone parses, the deadline does
  not parse, and calling \<^verbatim>\<open>toDate\<close> on \<^verbatim>\<open>createdAt\<close> raises. On every other record it
  returns.
\<close>

theorem resolver_raises_exactly_when:
  "(\<exists>err. getEarliestDeadline e opp = Inl err) =
   (noMilestoneParses e opp \<and> parseFlexibleDate e (deadline opp) = None
      \<and> createdAt opp = Timestamp Throws)"
  by (rule getEarliestDeadline_raises_iff)

text \<open>
  C4 at a record whose \<^verbatim>\<open>createdAt\<close> has a \<^verbatim>\<open>toDate\<close> that raises, with no milestones and
  no deadline: \<^verbatim>\<open>parseFlexibleDate\<close> would catch the exception, but the fallback calls
  \<^verbatim>\<open>toDate\<close> itself, outside any \<^verbatim>\<open>try\<close>, and \<^verbatim>\<open>getEarliestDeadline\<close> raises, in the
  copy of Home.tsx as in the other.
\<close>

theorem resolver_raises_on_throwing_createdAt:
  "getEarliestDeadline newYork brokenCreatedAt = Inl ToDateError \<and>
   getEarliestDeadline_Home newYork brokenCreatedAt = Inl ToDateError \<and>
   parseFlexibleDate newYork (createdAt brokenCreatedAt) = None"
  by code_simp


lemma getEarliestDeadline_returns:
  "createdAt opp \<noteq> Timestamp Throws \<Longrightarrow> \<exists>d. getEarliestDeadline e opp = Inr d"
  using getEarliestDeadline_raises_iff [of e opp] by (cases "getEarliestDeadline e opp") auto

section \<open>The asynchronous resolver\<close>

lemma tryCatch_same: "tryCatch body body = body"
  by (simp add: tryCatch_def split: sum.splits)

lemma tryCatch_returns: "handler = Inr d \<Longrightarrow> \<exists>d'. tryCatch body handler = Inr d'"
  by (simp add: tryCatch_def split: sum.splits)

text \<open>
  C3 at the same record: the body raises, the handler calls \<^verbatim>\<open>getEarliestDeadline\<close> on the
  same record and raises again, and the promise is rejected, whether the fetch failed or
  found nothing.
\<close>

theorem async_resolver_rejects_on_throwing_createdAt:
  "getEarliestDeadlineFromFullData newYork fetchFails brokenCreatedAt
     = ([(''op2'', ''workshops'')], Inl ToDateError) \<and>
   getEarliestDeadlineFromFullData newYork fetchNothing brokenCreatedAt
     = ([(''op2'', ''workshops'')], Inl ToDateError)"
  by code_simp

text \<open>
  A record that carries a non-empty list of milestones is resolved by the synchronous
  resolver, and \<^verbatim>\<open>getOpportunityDetails\<close> is not called.
\<close>

theorem async_resolver_delegates_without_fetch:
  "hasMilestones opp \<Longrightarrow>
   getEarliestDeadlineFromFullData e f opp = ([], getEarliestDeadline e opp)"
  by (simp add: getEarliestDeadlineFromFullData_def tryCatch_same)

text \<open>The record with the three sample milestones: resolved without a fetch.\<close>

theorem async_resolver_delegates_witness:
  "hasMilestones withMilestones \<and>
   getEarliestDeadlineFromFullData newYork fetchFails withMilestones
     = ([], Inr (Some 1764547200000))"
proof -
  have a: "hasMilestones withMilestones" by code_simp
  have b: "getEarliestDeadline newYork withMilestones = Inr (Some 1764547200000)" by code_simp
  from async_resolver_delegates_without_fetch [OF a, of newYork fetchFails] a b
  show ?thesis by simp
qed

text \<open>
  Whatever the fetch does, the promise is resolved as soon as the synchronous resolver
  returns on the preview record.
\<close>

theorem async_resolver_resolves:
  assumes "getEarliestDeadline e opp = Inr d"
  shows "\<exists>d'. snd (getEarliestDeadlineFromFullData e f opp) = Inr d'"
  using assms tryCatch_returns [OF assms]
  by (auto simp: getEarliestDeadlineFromFullData_def Let_def tryCatch_same
      split: fetchOutcome.splits option.splits)

text \<open>A workshop whose fetch fails: one call, and the date of the preview record.\<close>

theorem async_resolver_resolves_witness:
  "getEarliestDeadline newYork workshop = Inr (Some 1738281600000) \<and>
   getEarliestDeadlineFromFullData newYork fetchFails workshop
     = ([(''w1'', ''workshops'')], Inr (Some 1738281600000)) \<and>
   (\<exists>d. snd (getEarliestDeadlineFromFullData newYork fetchFails workshop) = Inr d)"
proof -
  have a: "getEarliestDeadline newYork workshop = Inr (Some 1738281600000)" by code_simp
  have b: "getEarliestDeadlineFromFullData newYork fetchFails workshop
             = ([(''w1'', ''workshops'')], Inr (Some 1738281600000))" by code_simp
  from async_resolver_resolves [OF a, of fetchFails] a b show ?thesis by simp
qed

text \<open>
  When the record has no milestones of its own and the fetch fails, finds nothing, or finds
  a record without a list of milestones, the result is that of the synchronous resolver on
  the preview record.
\<close>

theorem async_resolver_falls_back_to_preview:
  assumes "\<not> hasMilestones opp"
    and "\<forall>full. f (id' opp) (getCollectionNameForCategory (orElse (category opp) (specificCollection opp)))
            = Document full \<longrightarrow> dateMilestones full = None"
  shows "snd (getEarliestDeadlineFromFullData e f opp) = getEarliestDeadline e opp"
  using assms
  by (auto simp: getEarliestDeadlineFromFullData_def Let_def tryCatch_same
      split: fetchOutcome.splits option.splits)

text \<open>The same workshop when the fetch finds nothing.\<close>

theorem async_resolver_falls_back_witness:
  "\<not> hasMilestones workshop \<and>
   getEarliestDeadlineFromFullData newYork fetchNothing workshop
     = ([(''w1'', ''workshops'')], Inr (Some 1738281600000)) \<and>
   snd (getEarliestDeadlineFromFullData newYork fetchNothing workshop)
     = getEarliestDeadline newYork workshop"
proof -
  have a: "\<not> hasMilestones workshop" by code_simp
  have b: "\<forall>full. fetchNothing (id' workshop)
              (getCollectionNameForCategory (orElse (category workshop) (specificCollection workshop)))
            = Document full \<longrightarrow> dateMilestones full = None"
    by (simp add: fetchNothing_def)
  have c: "getEarliestDeadlineFromFullData newYork fetchNothing workshop
             = ([(''w1'', ''workshops'')], Inr (Some 1738281600000))" by code_simp
  from async_resolver_falls_back_to_preview [where f = fetchNothing and opp = workshop and e = newYork, OF a b]
    a c show ?thesis by simp
qed

text \<open>
  When the record has no milestones of its own, has an id and a collection other than
  \<^verbatim>\<open>opportunities\<close>, and the fetch finds a record with a list of milestones on which the
  synchronous resolver returns, the promise resolves with the date of the fetched record,
  after one call of \<^verbatim>\<open>getOpportunityDetails\<close>.
\<close>

theorem async_resolver_uses_full_record:
  assumes "\<not> hasMilestones opp" and "id' opp \<noteq> []"
    and "getCollectionNameForCategory (orElse (category opp) (specificCollection opp)) = collection"
    and "collection \<noteq> ''opportunities''"
    and "f (id' opp) collection = Document full"
    and "dateMilestones full = Some ms"
    and "getEarliestDeadline e full = Inr d"
  shows "getEarliestDeadlineFromFullData e f opp = ([(id' opp, collection)], Inr d)"
proof -
  from assms(3,4) have "collection \<noteq> []"
    by (auto simp: getCollectionNameForCategory_def split: if_splits)
  with assms show ?thesis
    by (simp add: getEarliestDeadlineFromFullData_def tryCatch_def)
qed

text \<open>The same workshop when the fetch finds a record with the three sample milestones.\<close>

theorem async_resolver_full_record_witness:
  "\<not> hasMilestones workshop \<and>
   fetchFull (id' workshop) ''workshops'' = Document (blank\<lparr>id' := ''w1'', dateMilestones := Some sampleMilestones\<rparr>) \<and>
   getEarliestDeadline newYork workshop = Inr (Some 1738281600000) \<and>
   getEarliestDeadlineFromFullData newYork fetchFull workshop
     = ([(''w1'', ''workshops'')], Inr (Some 1764547200000))"
proof -
  have a: "\<not> hasMilestones workshop" by code_simp
  have b: "id' workshop \<noteq> []" by code_simp
  have c: "getCollectionNameForCategory (orElse (category workshop) (specificCollection workshop))
             = ''workshops''" by code_simp
  have d: "''workshops'' \<noteq> ''opportunities''" by simp
  have f: "fetchFull (id' workshop) ''workshops''
             = Document (blank\<lparr>id' := ''w1'', dateMilestones := Some sampleMilestones\<rparr>)"
    by code_simp
  have g: "dateMilestones (blank\<lparr>id' := ''w1'', dateMilestones := Some sampleMilestones\<rparr>)
             = Some sampleMilestones" by simp
  have i: "getEarliestDeadline newYork (blank\<lparr>id' := ''w1'', dateMilestones := Some sampleMilestones\<rparr>)
             = Inr (Some 1764547200000)" by code_simp
  have j: "getEarliestDeadline newYork workshop = Inr (Some 1738281600000)" by code_simp
  have k: "id' workshop = ''w1''" by code_simp
  from async_resolver_uses_full_record [where f = fetchFull and opp = workshop, OF a b c d f g i]
    a f j k show ?thesis by simp
qed

section \<open>The batches of the enrichment\<close>

text \<open>
  C8 at a list holding that record: its promise is rejected, \<^verbatim>\<open>Promise.all\<close> is rejected,
  and \<^verbatim>\<open>setOpportunityDeadlines\<close> is never called, so no id gets an entry.
\<close>

theorem enrichment_rejects_on_throwing_createdAt:
  "fetchOpportunityDeadlines newYork fetchFails [studySpot, brokenCreatedAt] = Inl ToDateError"
  by code_simp

lemma deadlinePromise_returns:
  assumes "getEarliestDeadline e opp = Inr d"
  shows "\<exists>d'. deadlinePromise e f opp = Inr (id' opp, d')"
  using tryCatch_returns [OF assms, of "snd (getEarliestDeadlineFromFullData e f opp)"]
  by (auto simp: deadlinePromise_def)

lemma Promise_all_returns:
  assumes "\<forall>x\<in>set xs. \<exists>d. g x = Inr (k x, d)"
  shows "\<exists>rs. Promise_all (map g xs) = Inr rs \<and> map fst rs = map k xs"
  using assms
proof (induction xs)
  case Nil
  then show ?case by simp
next
  case (Cons x xs)
  then obtain d rs where "g x = Inr (k x, d)" "Promise_all (map g xs) = Inr rs" "map fst rs = map k xs"
    by auto
  then show ?case by simp
qed

lemma setAll_keys: "fst ` set (setAll rs m) = fst ` set m \<union> fst ` set rs"
  unfolding setAll_def by (induction rs arbitrary: m) (auto simp: dom_update)

lemma batch_count: "i < n \<Longrightarrow> (n - i + 4) div 5 = Suc ((n - (i + 5) + 4) div 5)" for i n :: nat
  by (cases "i + 5 \<le> n") auto

lemma fetchLoop_returns:
  assumes ok: "\<forall>opp\<in>set opps. \<exists>d. getEarliestDeadline e opp = Inr d"
  shows "\<exists>r. fetchLoop e f opps i acc = Inr r
           \<and> batches r = batches acc
                 @ map (\<lambda>k. take 5 (drop (i + 5 * k) opps)) [0..<(length opps - i + 4) div 5]
           \<and> concat (batches r) = concat (batches acc) @ drop i opps
           \<and> set (map fst (deadlineMap r)) = set (map fst (deadlineMap acc)) \<union> id' ` set (drop i opps)"
  using ok
proof (induction e f opps i acc rule: fetchLoop.induct)
  case (1 e f opps i acc)
  show ?case
  proof (cases "i < length opps")
    case False
    then show ?thesis by (simp add: fetchLoop.simps [of e f opps i acc])
  next
    case True
    let ?batch = "slice opps i (i + batchSize)"
    have batch: "?batch = take 5 (drop i opps)" by (simp add: slice_def batchSize_def)
    have "\<forall>opp\<in>set ?batch. \<exists>d. deadlinePromise e f opp = Inr (id' opp, d)"
    proof
      fix opp assume "opp \<in> set ?batch"
      then have "opp \<in> set opps" unfolding batch by (meson in_set_dropD in_set_takeD)
      with "1.prems" obtain d where "getEarliestDeadline e opp = Inr d" by blast
      then show "\<exists>d. deadlinePromise e f opp = Inr (id' opp, d)" by (rule deadlinePromise_returns)
    qed
    from Promise_all_returns [OF this]
    obtain results where res: "Promise_all (map (deadlinePromise e f) ?batch) = Inr results"
      and keys: "map fst results = map id' ?batch" by blast
    let ?acc = "\<lparr>deadlineMap = setAll results (deadlineMap acc), batches = batches acc @ [?batch]\<rparr>"
    from "1.IH" [OF True res "1.prems"]
    obtain r where r: "fetchLoop e f opps (i + batchSize) ?acc = Inr r"
      and b: "batches r = batches ?acc
                @ map (\<lambda>k. take 5 (drop (i + batchSize + 5 * k) opps))
                    [0..<(length opps - (i + batchSize) + 4) div 5]"
      and c: "concat (batches r) = concat (batches ?acc) @ drop (i + batchSize) opps"
      and k: "set (map fst (deadlineMap r))
                = set (map fst (deadlineMap ?acc)) \<union> id' ` set (drop (i + batchSize) opps)"
      by blast
    have loop: "fetchLoop e f opps i acc = Inr r"
      using True res r by (simp add: fetchLoop.simps [of e f opps i acc])
    define m where "m = (length opps - (i + 5) + 4) div 5"
    define n where "n = (length opps - i + 4) div 5"
    have n: "n = Suc m" unfolding n_def m_def using True by (rule batch_count)
    have shift: "map (\<lambda>k. take 5 (drop (i + 5 * k) opps)) [0..<Suc m]
                   = take 5 (drop i opps) # map (\<lambda>k. take 5 (drop (i + 5 + 5 * k) opps)) [0..<m]"
      by (simp add: map_upt_Suc add.assoc del: upt_Suc)
    from b have "batches r = batches acc
                   @ take 5 (drop i opps) # map (\<lambda>k. take 5 (drop (i + 5 + 5 * k) opps)) [0..<m]"
      unfolding m_def by (simp add: slice_def batchSize_def)
    with shift n have "batches r = batches acc @ map (\<lambda>k. take 5 (drop (i + 5 * k) opps)) [0..<n]"
      by simp
    then have b': "batches r = batches acc
                @ map (\<lambda>k. take 5 (drop (i + 5 * k) opps)) [0..<(length opps - i + 4) div 5]"
      unfolding n_def .
    have split: "drop i opps = take 5 (drop i opps) @ drop (i + 5) opps"
      by (metis add.commute append_take_drop_id drop_drop)
    have c': "concat (batches r) = concat (batches acc) @ drop i opps"
      using c split by (simp add: slice_def batchSize_def)
    have "set (drop i opps) = set (take 5 (drop i opps)) \<union> set (drop (i + 5) opps)"
      using split by (metis set_append)
    have k': "set (map fst (deadlineMap r))
                     = set (map fst (deadlineMap acc)) \<union> id' ` set (drop i opps)"
    proof -
      from keys have "fst ` set results = id' ` set (take 5 (drop i opps))"
        by (metis batch image_set)
      with k \<open>set (drop i opps) = set (take 5 (drop i opps)) \<union> set (drop (i + 5) opps)\<close>
      show ?thesis by (auto simp: setAll_keys batchSize_def)
    qed
    from loop b' c' k' show ?thesis by blast
  qed
qed

text \<open>
  The batches of \<^verbatim>\<open>fetchOpportunityDeadlines\<close>. On a list of records none of whose
  \<^verbatim>\<open>createdAt\<close> raises, and whatever the fetches do, the function completes; it has processed
  \<open>\<lceil>n / 5\<rceil>\<close> batches, batch \<open>k\<close> being the records from \<open>5 k\<close> up to \<open>5 k + 5\<close>, one after the
  other, which together are the list; and the map has an entry for the id of every record.
\<close>

theorem enrichment_batches_of_five:
  assumes "\<forall>opp\<in>set opps. createdAt opp \<noteq> Timestamp Throws"
  shows "\<exists>r. fetchOpportunityDeadlines e f opps = Inr r
           \<and> length (batches r) = (length opps + 4) div 5
           \<and> (\<forall>k<length (batches r). batches r ! k = take 5 (drop (5 * k) opps))
           \<and> concat (batches r) = opps
           \<and> set (map fst (deadlineMap r)) = set (map id' opps)"
proof -
  from assms have "\<forall>opp\<in>set opps. \<exists>d. getEarliestDeadline e opp = Inr d"
    by (simp add: getEarliestDeadline_returns)
  from fetchLoop_returns [OF this, of f 0 "\<lparr>deadlineMap = [], batches = []\<rparr>"]
  obtain r where r: "fetchOpportunityDeadlines e f opps = Inr r"
    and b: "batches r = map (\<lambda>k. take 5 (drop (5 * k) opps)) [0..<(length opps + 4) div 5]"
    and c: "concat (batches r) = opps"
    and k: "set (map fst (deadlineMap r)) = set (map id' opps)"
    by (auto simp: fetchOpportunityDeadlines_def)
  from b have len: "length (batches r) = (length opps + 4) div 5" by simp
  have nth: "\<forall>k<length (batches r). batches r ! k = take 5 (drop (5 * k) opps)"
    unfolding len by (simp add: b)
  from r len nth c k show ?thesis by blast
qed

text \<open>Twelve records: three batches, of 5, 5 and 2, and twelve entries, every fetch failing.\<close>

theorem enrichment_of_twelve:
  "length twelve = 12 \<and>
   map_sum id (\<lambda>r. (map length (batches r), map fst (deadlineMap r)))
       (fetchOpportunityDeadlines newYork fetchFails twelve)
     = Inr ([5, 5, 2], [''a'', ''b'', ''c'', ''d'', ''e'', ''f'', ''g'', ''h'', ''i'', ''j'', ''k'', ''l'']) \<and>
   (\<exists>r. fetchOpportunityDeadlines newYork fetchFails twelve = Inr r \<and> length (batches r) = 3)"
proof -
  have a: "\<forall>opp\<in>set twelve. createdAt opp \<noteq> Timestamp Throws" by code_simp
  have b: "length twelve = 12" by code_simp
  have c: "map_sum id (\<lambda>r. (map length (batches r), map fst (deadlineMap r)))
       (fetchOpportunityDeadlines newYork fetchFails twelve)
     = Inr ([5, 5, 2], [''a'', ''b'', ''c'', ''d'', ''e'', ''f'', ''g'', ''h'', ''i'', ''j'', ''k'', ''l''])"
    by code_simp
  from enrichment_batches_of_five [OF a, of newYork fetchFails] b
  have "\<exists>r. fetchOpportunityDeadlines newYork fetchFails twelve = Inr r \<and> length (batches r) = 3"
    by auto
  with b c show ?thesis by simp
qed

section \<open>The heap, the filter and the sort of the list\<close>

lemma Array_sort_cases:
  assumes "Array_sort cmp a h = (r, h')"
  shows "(\<exists>err. r = Inl err \<and> h' = h)
       \<or> (\<exists>ys. r = Inr a \<and> js_sort cmp (arrays h a) = Inr ys
              \<and> h' = h\<lparr>arrays := (arrays h)(a := ys)\<rparr>)"
  using assms by (auto simp: Array_sort_def split: sum.splits)

lemma Array_sort_frame:
  assumes "Array_sort cmp a h = (r, h')" and "b \<noteq> a"
  shows "arrays h' b = arrays h b"
  using Array_sort_cases [OF assms(1)] assms(2) by auto


lemma Array_sort_ref:
  assumes "Array_sort cmp a h = (Inr b, h')"
  shows "b = a"
  using Array_sort_cases [OF assms(1)] by auto

lemma Array_sort_nextRef:
  assumes "Array_sort cmp a h = (r, h')"
  shows "nextRef h' = nextRef h"
  using Array_sort_cases [OF assms(1)] by auto


text \<open>What \<open>sortOpportunities\<close> does to the heap.\<close>

lemma sortOpportunities_frame:
  assumes "sortOpportunities e st opps h = (r, h')" and "b \<noteq> nextRef h"
  shows "arrays h' b = arrays h b"
proof -
  let ?h1 = "snd (newArray (arrays h opps) h)"
  have h1: "arrays ?h1 b = arrays h b" using assms(2) by (simp add: newArray_def)
  from assms(1) have "(\<exists>cmp. Array_sort cmp (nextRef h) ?h1 = (r, h')) \<or> h' = ?h1"
    by (auto simp: sortOpportunities_def newArray_def split: if_splits)
  with h1 assms(2) show ?thesis by (auto dest: Array_sort_frame)
qed


lemma sortOpportunities_ref:
  assumes "sortOpportunities e st opps h = (Inr a, h')"
  shows "a = nextRef h"
  using assms
  by (auto simp: sortOpportunities_def newArray_def split: if_splits dest: Array_sort_ref)

lemma sortOpportunities_default:
  assumes "sortBy st \<noteq> ''newest''" "sortBy st \<noteq> ''oldest''"
    "sortBy st \<noteq> ''deadline-soon''" "sortBy st \<noteq> ''deadline-far''"
  shows "sortOpportunities e st opps h =
           (Inr (nextRef h), h\<lparr>arrays := (arrays h)(nextRef h := arrays h opps), nextRef := Suc (nextRef h)\<rparr>)"
  using assms by (simp add: sortOpportunities_def newArray_def)



lemma filterOpportunities_frame:
  assumes "b \<noteq> nextRef h"
  shows "arrays (snd (filterOpportunities st opps h)) b = arrays h b"
  using assms by (simp add: filterOpportunities_def newArray_def)

lemma filterOpportunities_ref: "fst (filterOpportunities st opps h) = nextRef h"
  by (simp add: filterOpportunities_def newArray_def)

lemma filterOpportunities_result:
  "arrays (snd (filterOpportunities st opps h)) (nextRef h) =
     filter (\<lambda>opp. isNotResource opp \<and> matchesCategory (selectedCategory st) opp
                     \<and> isOpportunityOrganizationVerified opp) (arrays h opps)"
  by (simp add: filterOpportunities_def newArray_def)

text \<open>
  C10. Neither \<^verbatim>\<open>filterOpportunities\<close> nor \<^verbatim>\<open>sortOpportunities\<close> changes the array it is
  given: after either call the input array holds the same elements in the same order, and
  what is returned is another array. With a sort key that is none of the four,
  \<^verbatim>\<open>sortOpportunities\<close> returns the copy with the elements in the original order.
\<close>

theorem filter_and_sort_leave_input_intact:
  assumes "opps < nextRef h"
  shows "arrays (snd (filterOpportunities st opps h)) opps = arrays h opps
       \<and> fst (filterOpportunities st opps h) \<noteq> opps
       \<and> arrays (snd (sortOpportunities e st opps h)) opps = arrays h opps
       \<and> fst (sortOpportunities e st opps h) \<noteq> Inr opps
       \<and> (sortBy st \<noteq> ''newest'' \<and> sortBy st \<noteq> ''oldest'' \<and> sortBy st \<noteq> ''deadline-soon''
            \<and> sortBy st \<noteq> ''deadline-far''
          \<longrightarrow> (\<exists>copy. fst (sortOpportunities e st opps h) = Inr copy
                  \<and> arrays (snd (sortOpportunities e st opps h)) copy = arrays h opps))"
proof -
  from assms have ne: "opps \<noteq> nextRef h" by simp
  obtain r h' where s: "sortOpportunities e st opps h = (r, h')" by (cases "sortOpportunities e st opps h")
  have "r \<noteq> Inr opps"
  proof
    assume "r = Inr opps"
    with s sortOpportunities_ref have "opps = nextRef h" by blast
    with ne show False by simp
  qed
  moreover from sortOpportunities_frame [OF s ne] have "arrays h' opps = arrays h opps" .
  ultimately show ?thesis
    using ne s by (auto simp: filterOpportunities_frame filterOpportunities_ref sortOpportunities_default)
qed

text \<open>
  The theorem on the sample heap, sorting oldest first: the copy at reference 2 is sorted,
  the input at reference 0 is as it was.
\<close>

theorem filter_and_sort_witness:
  "(0::nat) < nextRef sampleHeap \<and>
   arrays sampleHeap 0 = [workshop, mislabelled, libraryGuide, pendingWorkshop] \<and>
   arrays (snd (filterOpportunities oldestHome 0 sampleHeap)) 0 = arrays sampleHeap 0 \<and>
   arrays (snd (sortOpportunities newYork oldestHome 0 sampleHeap)) 0 = arrays sampleHeap 0 \<and>
   fst (sortOpportunities newYork oldestHome 0 sampleHeap) = Inr 2 \<and>
   arrays (snd (sortOpportunities newYork oldestHome 0 sampleHeap)) 2
     = [pendingWorkshop, libraryGuide, mislabelled, workshop]"
proof -
  have a: "(0::nat) < nextRef sampleHeap" by (simp add: sampleHeap_def)
  have b: "arrays sampleHeap 0 = [workshop, mislabelled, libraryGuide, pendingWorkshop]"
    by (simp add: sampleHeap_def sampleArrays_def)
  have c: "fst (sortOpportunities newYork oldestHome 0 sampleHeap) = Inr 2"
    by code_simp
  have d: "arrays (snd (sortOpportunities newYork oldestHome 0 sampleHeap)) 2
             = [pendingWorkshop, libraryGuide, mislabelled, workshop]"
    by code_simp
  from filter_and_sort_leave_input_intact [OF a, of oldestHome newYork] a b c d
  show ?thesis by simp
qed

section \<open>The displayed list\<close>










text \<open>
  C6, as the code has it. Whatever the selected category, every record that
  \<^verbatim>\<open>filterOpportunities\<close> keeps is a record of the input whose collection, that is
  \<^verbatim>\<open>specificCollection\<close> when it is populated and \<^verbatim>\<open>category\<close> otherwise, is not
  \<^verbatim>\<open>resources\<close> or \<^verbatim>\<open>resource\<close> in lower case, whose \<^verbatim>\<open>type\<close> is neither of the two
  words as written, and whose first populated verification status is \<^verbatim>\<open>verified\<close>.
\<close>

theorem filter_drops_resources_and_unverified:
  "\<forall>opp\<in>set (arrays (snd (filterOpportunities st opps h)) (fst (filterOpportunities st opps h))).
     lowerCollection opp \<noteq> ''resources'' \<and> lowerCollection opp \<noteq> ''resource''
     \<and> type' opp \<noteq> Some ''resources'' \<and> type' opp \<noteq> Some ''resource''
     \<and> isOpportunityOrganizationVerified opp
     \<and> opp \<in> set (arrays h opps)"
proof
  fix opp
  assume "opp \<in> set (arrays (snd (filterOpportunities st opps h)) (fst (filterOpportunities st opps h)))"
  then have "opp \<in> set (arrays h opps)" and "isNotResource opp"
    and "isOpportunityOrganizationVerified opp"
    by (simp_all add: filterOpportunities_ref filterOpportunities_result)
  then show "lowerCollection opp \<noteq> ''resources'' \<and> lowerCollection opp \<noteq> ''resource''
     \<and> type' opp \<noteq> Some ''resources'' \<and> type' opp \<noteq> Some ''resource''
     \<and> isOpportunityOrganizationVerified opp
     \<and> opp \<in> set (arrays h opps)"
    by (simp add: isNotResource_def)
qed

text \<open>
  The theorem on the sample heap: the resource and the workshop whose first status is
  \<^verbatim>\<open>pending\<close> are dropped.
\<close>

theorem filter_witness:
  "arrays sampleHeap 0 = [workshop, mislabelled, libraryGuide, pendingWorkshop] \<and>
   fst (filterOpportunities allHome 0 sampleHeap) = 2 \<and>
   arrays (snd (filterOpportunities allHome 0 sampleHeap)) 2 = [workshop, mislabelled] \<and>
   lowerCollection libraryGuide = ''resources'' \<and>
   \<not> isOpportunityOrganizationVerified pendingWorkshop \<and>
   lowerCollection workshop \<noteq> ''resources'' \<and>
   isOpportunityOrganizationVerified workshop \<and>
   isOpportunityOrganizationVerified mislabelled"
proof -
  have a: "arrays sampleHeap 0 = [workshop, mislabelled, libraryGuide, pendingWorkshop]"
    by (simp add: sampleHeap_def sampleArrays_def)
  have b: "fst (filterOpportunities allHome 0 sampleHeap) = 2" by code_simp
  have c: "arrays (snd (filterOpportunities allHome 0 sampleHeap)) 2 = [workshop, mislabelled]"
    by code_simp
  have d: "lowerCollection libraryGuide = ''resources''" by code_simp
  have f: "\<not> isOpportunityOrganizationVerified pendingWorkshop" by code_simp
  from filter_drops_resources_and_unverified [of allHome 0 sampleHeap] b c
  have "lowerCollection workshop \<noteq> ''resources'' \<and> isOpportunityOrganizationVerified workshop
        \<and> isOpportunityOrganizationVerified mislabelled"
    by simp
  with a b c d f show ?thesis by simp
qed

text \<open>
  C6 as stated fails: a record whose \<^verbatim>\<open>category\<close> is \<^verbatim>\<open>Resources\<close> is kept when its
  \<^verbatim>\<open>specificCollection\<close> is populated with another name, since \<^verbatim>\<open>category\<close> is read only
  when \<^verbatim>\<open>specificCollection\<close> is empty.
\<close>

theorem filter_counterexample:
  "arrays sampleHeap 0 = [workshop, mislabelled, libraryGuide, pendingWorkshop] \<and>
   arrays (snd (filterOpportunities allHome 0 sampleHeap)) (fst (filterOpportunities allHome 0 sampleHeap))
     = [workshop, mislabelled] \<and>
   category mislabelled = Some ''Resources'' \<and>
   toLowerCase ''Resources'' = ''resources'' \<and>
   specificCollection mislabelled = Some ''workshops''"
  by code_simp

section \<open>Sorting by the soonest deadline\<close>

text \<open>
  The three records with the milestones \<^verbatim>\<open>Dec 1, 2025\<close>, \<^verbatim>\<open>2025-11-20\<close> and \<^verbatim>\<open>bad-date\<close>
  with \<^verbatim>\<open>Jan 5, 2026\<close>, sorted by the soonest deadline: the second, the first, the third. The
  milestone that does not parse is skipped.
\<close>

theorem soonest_deadline_scenario:
  "getEarliestDeadline manila firstOfDecember = Inr (Some 1764518400000) \<and>
   getEarliestDeadline manila twentiethOfNovember = Inr (Some 1763596800000) \<and>
   getEarliestDeadline manila fifthOfJanuary = Inr (Some 1767542400000) \<and>
   fst (sortOpportunities manila soonestHome 0 scenarioHeap) = Inr 1 \<and>
   arrays (snd (sortOpportunities manila soonestHome 0 scenarioHeap)) 1
     = [twentiethOfNovember, firstOfDecember, fifthOfJanuary] \<and>
   arrays (snd (sortOpportunities manila soonestHome 0 scenarioHeap)) 0
     = [firstOfDecember, twentiethOfNovember, fifthOfJanuary]"
  by code_simp

end
